theory Spec2Isabelle
  imports Complex_Main "HOL-Library.AList" "HOL-Library.Multiset"
begin

section \<open>Python values, exceptions and strings\<close>

text \<open>
  The pipeline handles loosely typed data: change events are read with \<^verbatim>\<open>json.load\<close> and
  the reasoning backend's answer is decoded with \<^verbatim>\<open>json.loads\<close>. Such values are modelled
  by the datatype \<open>json\<close>; a Python \<^verbatim>\<open>dict\<close> is an association list read with \<open>map_of\<close>.
  Text is a list of characters, one \<open>char\<close> per code point (code points up to 255).
  Python floats are modelled by exact rationals.
\<close>

datatype json =
    JNull
  | JBool bool
  | JInt int
  | JFloat rat
  | JStr string
  | JArr "json list"
  | JObj "(string \<times> json) list"

text \<open>Exceptions carry the text that \<^verbatim>\<open>str(e)\<close> returns.\<close>

datatype pyexn =
    ConnectError string
  | OllamaUnavailableError string
  | ModelNotFoundError string
  | ValueError string
  | TypeError string
  | AttributeError string
  | ValidationError string
  | OtherError string

fun exn_text :: "pyexn \<Rightarrow> string" where
  "exn_text (ConnectError m) = m"
| "exn_text (OllamaUnavailableError m) = m"
| "exn_text (ModelNotFoundError m) = m"
| "exn_text (ValueError m) = m"
| "exn_text (TypeError m) = m"
| "exn_text (AttributeError m) = m"
| "exn_text (ValidationError m) = m"
| "exn_text (OtherError m) = m"

text \<open>Truth value of a Python object, as \<^verbatim>\<open>not x\<close> and \<^verbatim>\<open>if x:\<close> test it.\<close>

fun truthy :: "json \<Rightarrow> bool" where
  "truthy JNull = False"
| "truthy (JBool b) = b"
| "truthy (JInt i) = (i \<noteq> 0)"
| "truthy (JFloat r) = (r \<noteq> 0)"
| "truthy (JStr s) = (s \<noteq> [])"
| "truthy (JArr xs) = (xs \<noteq> [])"
| "truthy (JObj kvs) = (kvs \<noteq> [])"

text \<open>\<^verbatim>\<open>d.get(k, default)\<close> on a dict.\<close>

definition dict_get :: "(string \<times> json) list \<Rightarrow> string \<Rightarrow> json \<Rightarrow> json" where
  "dict_get kvs k d = (case map_of kvs k of Some v \<Rightarrow> v | None \<Rightarrow> d)"

text \<open>The name Python prints for the type of a value, used in its error messages.\<close>

fun type_name :: "json \<Rightarrow> string" where
  "type_name JNull = ''NoneType''"
| "type_name (JBool b) = ''bool''"
| "type_name (JInt i) = ''int''"
| "type_name (JFloat r) = ''float''"
| "type_name (JStr s) = ''str''"
| "type_name (JArr xs) = ''list''"
| "type_name (JObj kvs) = ''dict''"

text \<open>\<^verbatim>\<open>x.get(k, default)\<close> on any value: only a dict has the method.\<close>

definition py_get :: "json \<Rightarrow> string \<Rightarrow> json \<Rightarrow> pyexn + json" where
  "py_get x k d =
     (case x of
        JObj kvs \<Rightarrow> Inr (dict_get kvs k d)
      | _ \<Rightarrow> Inl (AttributeError ([CHR 0x27] @ type_name x @ [CHR 0x27] @ '' object has no attribute '' @ [CHR 0x27] @ ''get'' @ [CHR 0x27])))"

text \<open>Whether a value is a \<^verbatim>\<open>str\<close>, and the strings among the members of a list.\<close>

fun is_text :: "json \<Rightarrow> bool" where
  "is_text (JStr s) = True"
| "is_text v = False"

fun texts :: "json list \<Rightarrow> string list" where
  "texts [] = []"
| "texts (JStr s # vs) = s # texts vs"
| "texts (v # vs) = texts vs"

subsection \<open>String operations\<close>

definition starts_with :: "string \<Rightarrow> string \<Rightarrow> bool" where
  "starts_with sub s = (take (length sub) s = sub)"

text \<open>\<^verbatim>\<open>s.find(sub, start)\<close> and \<^verbatim>\<open>s.rfind(sub)\<close>: an index, or -1.\<close>

definition find :: "string \<Rightarrow> string \<Rightarrow> nat \<Rightarrow> int" where
  "find s sub start =
     (case filter (\<lambda>i. starts_with sub (drop i s)) [start..<Suc (length s)] of
        [] \<Rightarrow> - 1
      | i # _ \<Rightarrow> int i)"

definition rfind :: "string \<Rightarrow> string \<Rightarrow> int" where
  "rfind s sub =
     (case filter (\<lambda>i. starts_with sub (drop i s)) (rev [0..<Suc (length s)]) of
        [] \<Rightarrow> - 1
      | i # _ \<Rightarrow> int i)"

text \<open>\<^verbatim>\<open>sub in s\<close>.\<close>

definition contains :: "string \<Rightarrow> string \<Rightarrow> bool" where
  "contains s sub = (\<exists>i \<in> set [0..<Suc (length s)]. starts_with sub (drop i s))"

text \<open>\<^verbatim>\<open>s[a:b]\<close> for indices that are not negative.\<close>

definition slice :: "string \<Rightarrow> nat \<Rightarrow> nat \<Rightarrow> string" where
  "slice s a b = take (b - a) (drop a s)"

text \<open>\<^verbatim>\<open>s.lower()\<close>: the capital letters of ASCII and of Latin-1 move up by 32.\<close>

definition lower_char :: "char \<Rightarrow> char" where
  "lower_char c =
     (let n = (of_char c :: nat)
      in if (65 \<le> n \<and> n \<le> 90) \<or> (192 \<le> n \<and> n \<le> 222 \<and> n \<noteq> 215)
         then char_of (n + 32) else c)"

definition lower :: "string \<Rightarrow> string" where
  "lower s = map lower_char s"

text \<open>\<^verbatim>\<open>s.strip()\<close> removes white space at both ends.\<close>

definition is_space :: "char \<Rightarrow> bool" where
  "is_space c =
     (let n = (of_char c :: nat)
      in (9 \<le> n \<and> n \<le> 13) \<or> (28 \<le> n \<and> n \<le> 32) \<or> n = 133 \<or> n = 160)"

definition strip :: "string \<Rightarrow> string" where
  "strip s = rev (dropWhile is_space (rev (dropWhile is_space s)))"

section \<open>Configuration (config.py)\<close>

definition CONFOUNDING_WINDOW_DAYS :: int where
  "CONFOUNDING_WINDOW_DAYS = 14"

definition LLM_MAX_RETRIES :: nat where
  "LLM_MAX_RETRIES = 2"

definition OLLAMA_MODEL :: string where
  "OLLAMA_MODEL = ''qwen2.5:7b''"

section \<open>Confounder detection (confounder\_service.py)\<close>

text \<open>
  A \<^verbatim>\<open>datetime\<close> is its wall-clock reading in microseconds and, when it is aware, its
  offset from UTC in microseconds.
\<close>

record datetime =
  wall_us :: int
  tz_offset_us :: "int option"

definition replace_tzinfo_utc :: "datetime \<Rightarrow> datetime" where
  "replace_tzinfo_utc d = d\<lparr>tz_offset_us := Some 0\<rparr>"

text \<open>
  \<^verbatim>\<open>a - b\<close> on datetimes, as a number of microseconds: aware operands are compared in
  UTC, naive ones by their readings, and mixing the two raises.
\<close>

definition dt_sub :: "datetime \<Rightarrow> datetime \<Rightarrow> pyexn + int" where
  "dt_sub a b =
     (case (tz_offset_us a, tz_offset_us b) of
        (Some oa, Some ob) \<Rightarrow> Inr ((wall_us a - oa) - (wall_us b - ob))
      | (None, None) \<Rightarrow> Inr (wall_us a - wall_us b)
      | _ \<Rightarrow> Inl (TypeError ''can't subtract offset-naive and offset-aware datetimes''))"

definition us_per_day :: int where
  "us_per_day = 86400000000"

text \<open>\<^verbatim>\<open>timedelta.days\<close>: the difference is normalised so that the rest is not negative.\<close>

definition td_days :: "int \<Rightarrow> int" where
  "td_days td = td div us_per_day"

text \<open>
  \<^verbatim>\<open>dateutil.parser.parse\<close> is a library function, taken as the parameter \<open>parse_date\<close> on
  strings (\<open>None\<close> when it raises); any other object is refused with a \<^verbatim>\<open>TypeError\<close>.
\<close>

definition parse_date_obj :: "(string \<Rightarrow> datetime option) \<Rightarrow> json \<Rightarrow> pyexn + datetime" where
  "parse_date_obj parse_date v =
     (case v of
        JStr s \<Rightarrow> (case parse_date s of
                     None \<Rightarrow> Inl (ValueError (''Unknown string format: '' @ s))
                   | Some d \<Rightarrow> Inr d)
      | _ \<Rightarrow> Inl (TypeError ''Parser must be a string or character stream''))"

text \<open>\<^verbatim>\<open>set(x)\<close>: the object must be iterable and its elements hashable.\<close>

fun hashable :: "json \<Rightarrow> bool" where
  "hashable (JArr xs) = False"
| "hashable (JObj kvs) = False"
| "hashable v = True"

definition py_set :: "json \<Rightarrow> pyexn + json set" where
  "py_set v =
     (case v of
        JArr xs \<Rightarrow> if list_all hashable xs then Inr (set xs)
                   else Inl (TypeError ''unhashable type'')
      | JStr s \<Rightarrow> Inr (set (map (\<lambda>c. JStr [c]) s))
      | JObj kvs \<Rightarrow> Inr (set (map (\<lambda>kv. JStr (fst kv)) kvs))
      | _ \<Rightarrow> Inl (TypeError ([CHR 0x27] @ type_name v @ [CHR 0x27] @ '' object is not iterable'')))"

text \<open>
  \<^verbatim>\<open>change_metrics.intersection(set(outcomes))\<close>. Every outcome is a \<^verbatim>\<open>str\<close>, and a
  \<^verbatim>\<open>str\<close> is equal to no object of another type, so the common members are strings.
\<close>

definition metric_intersection :: "json set \<Rightarrow> string list \<Rightarrow> string set" where
  "metric_intersection change_metrics outcomes =
     Set.filter (\<lambda>s. JStr s \<in> change_metrics) (set outcomes)"

text \<open>\<^verbatim>\<open>round(x, 3)\<close>: to the nearest thousandth, a tie going to the even one.\<close>

definition round3 :: "rat \<Rightarrow> rat" where
  "round3 x =
     (let y = x * 1000; f = \<lfloor>y\<rfloor>; r = y - of_int f
      in of_int (if r < 1 / 2 then f
                 else if 1 / 2 < r then f + 1
                 else if even f then f else f + 1) / 1000)"

definition confidence_of :: "int \<Rightarrow> rat" where
  "confidence_of days_since_change =
     round3 (1 - (of_int days_since_change / of_int CONFOUNDING_WINDOW_DAYS) * (3 / 10))"

record confounder_info =
  ci_change_id :: string
  ci_description :: string
  ci_days_ago :: int
  ci_affected_metrics :: "string set"
  ci_confidence :: rat

text \<open>
  The constructor \<^verbatim>\<open>ConfounderInfo(...)\<close> validates its fields: \<^verbatim>\<open>change_id\<close> and
  \<^verbatim>\<open>description\<close> must be strings. The other three fields are well typed where it is called.
\<close>

definition ConfounderInfo ::
  "json \<Rightarrow> json \<Rightarrow> int \<Rightarrow> string set \<Rightarrow> rat \<Rightarrow> pyexn + confounder_info" where
  "ConfounderInfo cid descr days metrics conf =
     (case (cid, descr) of
        (JStr i, JStr d) \<Rightarrow>
          Inr \<lparr>ci_change_id = i, ci_description = d, ci_days_ago = days,
               ci_affected_metrics = metrics, ci_confidence = conf\<rparr>
      | _ \<Rightarrow> Inl (ValidationError ''validation error for ConfounderInfo''))"

text \<open>
  The body of the \<^verbatim>\<open>try\<close> block for one change. It returns \<^verbatim>\<open>current_date\<close>, which the
  body may replace by its aware form, and either the exception raised or the record to
  append (\<open>None\<close> when the change is skipped).
\<close>

definition process_change ::
  "(string \<Rightarrow> datetime option) \<Rightarrow> datetime \<Rightarrow> string list \<Rightarrow> json
     \<Rightarrow> datetime \<times> (pyexn + confounder_info option)" where
  "process_change parse_date current_date outcomes change =
     (case py_get change ''date'' (JStr '''') of
        Inl e \<Rightarrow> (current_date, Inl e)
      | Inr change_date_str \<Rightarrow>
          if \<not> truthy change_date_str then (current_date, Inr None)
          else
            (case parse_date_obj parse_date change_date_str of
               Inl e \<Rightarrow> (current_date, Inl e)
             | Inr parsed \<Rightarrow>
                 let change_date =
                       (if tz_offset_us parsed = None then replace_tzinfo_utc parsed else parsed);
                     current_date' =
                       (if tz_offset_us current_date = None then replace_tzinfo_utc current_date
                        else current_date)
                 in (current_date',
                     case dt_sub current_date' change_date of
                       Inl e \<Rightarrow> Inl e
                     | Inr td \<Rightarrow>
                         let days_since_change = td_days td
                         in if days_since_change \<le> CONFOUNDING_WINDOW_DAYS \<and> days_since_change \<ge> 0
                            then
                              (case py_get change ''affected_metrics'' (JArr []) of
                                 Inl e \<Rightarrow> Inl e
                               | Inr ms \<Rightarrow>
                                   (case py_set ms of
                                      Inl e \<Rightarrow> Inl e
                                    | Inr change_metrics \<Rightarrow>
                                        let intersection = metric_intersection change_metrics outcomes
                                        in if intersection \<noteq> {}
                                           then
                                             (case py_get change ''id'' (JStr ''unknown'') of
                                                Inl e \<Rightarrow> Inl e
                                              | Inr cid \<Rightarrow>
                                                  (case py_get change ''description'' (JStr ''Unknown change'') of
                                                     Inl e \<Rightarrow> Inl e
                                                   | Inr descr \<Rightarrow>
                                                       (case ConfounderInfo cid descr days_since_change
                                                               intersection (confidence_of days_since_change) of
                                                          Inl e \<Rightarrow> Inl e
                                                        | Inr confounder \<Rightarrow> Inr (Some confounder))))
                                           else Inr None))
                            else Inr None)))"

text \<open>
  The \<^verbatim>\<open>except\<close> handler formats a warning with \<^verbatim>\<open>change.get('id', 'unknown')\<close>, which
  raises again when the change is not a dict.
\<close>

definition log_skipped :: "json \<Rightarrow> pyexn + unit" where
  "log_skipped change =
     (case py_get change ''id'' (JStr ''unknown'') of Inl e \<Rightarrow> Inl e | Inr _ \<Rightarrow> Inr ())"

text \<open>The \<^verbatim>\<open>for\<close> loop over the changes, with the list built so far.\<close>

fun detect_loop ::
  "(string \<Rightarrow> datetime option) \<Rightarrow> datetime \<Rightarrow> string list \<Rightarrow> json list
     \<Rightarrow> confounder_info list \<Rightarrow> pyexn + confounder_info list" where
  "detect_loop parse_date current_date outcomes [] confounders = Inr confounders"
| "detect_loop parse_date current_date outcomes (change # rest) confounders =
     (case process_change parse_date current_date outcomes change of
        (current_date', Inr None) \<Rightarrow>
          detect_loop parse_date current_date' outcomes rest confounders
      | (current_date', Inr (Some confounder)) \<Rightarrow>
          detect_loop parse_date current_date' outcomes rest (confounders @ [confounder])
      | (current_date', Inl e) \<Rightarrow>
          (case log_skipped change of
             Inl e' \<Rightarrow> Inl e'
           | Inr _ \<Rightarrow> detect_loop parse_date current_date' outcomes rest confounders))"

record detect_result =
  dr_confounders :: "confounder_info list"
  dr_decision_safe :: bool
  dr_total_confounders :: nat

text \<open>
  \<^verbatim>\<open>confounders.sort(key=lambda x: x.confidence, reverse=True)\<close> is a stable sort in
  descending order of the key: \<open>sort_key\<close> on the negated key.
\<close>

definition detect_confounders ::
  "(string \<Rightarrow> datetime option) \<Rightarrow> datetime \<Rightarrow> json list \<Rightarrow> string list
     \<Rightarrow> pyexn + detect_result" where
  "detect_confounders parse_date current_date recent_changes outcomes =
     (case detect_loop parse_date current_date outcomes recent_changes [] of
        Inl e \<Rightarrow> Inl e
      | Inr found \<Rightarrow>
          let confounders = sort_key (\<lambda>x. - ci_confidence x) found;
              decision_safe = (length confounders = 0)
          in Inr \<lparr>dr_confounders = confounders, dr_decision_safe = decision_safe,
                  dr_total_confounders = length confounders\<rparr>)"

section \<open>The reasoning backend (llm\_service.py)\<close>

text \<open>
  Library functions are parameters of the model, collected in one record:
  \<^verbatim>\<open>json.loads\<close> (\<open>None\<close> when it raises \<^verbatim>\<open>JSONDecodeError\<close>), the date parser, the text of a
  pydantic validation error for a model and the offending inputs, pydantic's coercion of
  an object that is not a \<^verbatim>\<open>bool\<close> to a \<^verbatim>\<open>bool\<close> field (\<open>None\<close> when it refuses), and the
  two renderings that the recommendation prompt embeds: \<^verbatim>\<open>str\<close> of a list of strings and
  \<^verbatim>\<open>json.dumps\<close> of the dumped confounders, and \<^verbatim>\<open>dict.update\<close> with an arbitrary
  decoded object.
\<close>

record libs =
  json_loads :: "string \<Rightarrow> json option"
  dateutil_parse :: "string \<Rightarrow> datetime option"
  validation_text :: "string \<Rightarrow> json list \<Rightarrow> string"
  lax_bool :: "json \<Rightarrow> bool option"
  str_of_list :: "string list \<Rightarrow> string"
  json_dumps :: "confounder_info list \<Rightarrow> string"
  dict_update :: "(string \<times> json) list \<Rightarrow> json \<Rightarrow> pyexn + (string \<times> json) list"

text \<open>
  \<^verbatim>\<open>llm.invoke([HumanMessage(content=prompt)])\<close>: the backend answers a prompt with a
  text, or the call raises.
\<close>

datatype invoke_result = Raises pyexn | Content string

type_synonym backend = "string \<Rightarrow> invoke_result"

definition nl :: string where
  "nl = [CHR 0x0A]"

subsection \<open>\_parse\_json\_response\<close>

definition parse_json_response :: "(string \<Rightarrow> json option) \<Rightarrow> string \<Rightarrow> pyexn + json" where
  "parse_json_response loads response_text =
     (let text = strip response_text
      in case loads text of
           Some v \<Rightarrow> Inr v
         | None \<Rightarrow>
             (case (if contains text ''```json''
                    then (let start = nat (find text ''```json'' 0 + 7);
                              end' = find text ''```'' start
                          in if end' > int start
                             then loads (strip (slice text start (nat end')))
                             else None)
                    else None) of
                Some v \<Rightarrow> Inr v
              | None \<Rightarrow>
                  (let start = find text ''{'' 0;
                       end' = rfind text ''}'' + 1
                   in case (if start \<ge> 0 \<and> end' > start
                            then loads (slice text (nat start) (nat end'))
                            else None) of
                        Some v \<Rightarrow> Inr v
                      | None \<Rightarrow>
                          Inl (ValueError (''Could not parse JSON from response: '' @ take 200 text)))))"

subsection \<open>ParsedQuestion and the rule-based parser\<close>

record parsed_question =
  pq_treatment :: string
  pq_outcomes :: "string list"
  pq_decision_type :: string

text \<open>
  The constructor \<^verbatim>\<open>ParsedQuestion(...)\<close> validates its fields: two strings and a list of
  strings. The list may be empty.
\<close>

definition ParsedQuestion :: "libs \<Rightarrow> json \<Rightarrow> json \<Rightarrow> json \<Rightarrow> pyexn + parsed_question" where
  "ParsedQuestion L t os d =
     (case (t, os, d) of
        (JStr t', JArr os', JStr d') \<Rightarrow>
          if list_all is_text os'
          then Inr \<lparr>pq_treatment = t', pq_outcomes = texts os', pq_decision_type = d'\<rparr>
          else Inl (ValidationError (validation_text L ''ParsedQuestion'' [t, os, d]))
      | _ \<Rightarrow> Inl (ValidationError (validation_text L ''ParsedQuestion'' [t, os, d])))"

definition treatment_keywords :: "string list" where
  "treatment_keywords = [''reduce'', ''increase'', ''change'', ''add'', ''remove'', ''launch'', ''stop'']"

definition metric_keywords :: "(string \<times> string) list" where
  "metric_keywords =
     [(''trial'', ''trial_to_paid''),
      (''conversion'', ''conversion_rate''),
      (''churn'', ''churn_rate''),
      (''revenue'', ''revenue''),
      (''activation'', ''activation_rate''),
      (''pricing'', ''conversion_rate'')]"

text \<open>The loop over the keywords, left at the first one the question contains.\<close>

fun extract_treatment :: "string \<Rightarrow> string \<Rightarrow> string list \<Rightarrow> string" where
  "extract_treatment question question_lower [] = ''unknown_change''"
| "extract_treatment question question_lower (kw # kws) =
     (if contains question_lower kw
      then (let idx = nat (find question_lower kw 0)
            in strip (takeWhile (\<lambda>c. c \<noteq> CHR ''?'') (slice question idx (idx + 50))))
      else extract_treatment question question_lower kws)"

fun extract_outcomes :: "string \<Rightarrow> (string \<times> string) list \<Rightarrow> string list" where
  "extract_outcomes question_lower [] = []"
| "extract_outcomes question_lower ((kw, metric) # rest) =
     (if contains question_lower kw
      then metric # extract_outcomes question_lower rest
      else extract_outcomes question_lower rest)"

definition rule_based_parse :: "libs \<Rightarrow> string \<Rightarrow> pyexn + parsed_question" where
  "rule_based_parse L question =
     (let question_lower = lower question;
          treatment = extract_treatment question question_lower treatment_keywords;
          found = extract_outcomes question_lower metric_keywords;
          outcomes = (if found = [] then [''conversion_rate''] else found);
          decision_type =
            (if contains question_lower ''why'' \<or> contains question_lower ''cause''
             then ''root_cause''
             else if contains question_lower ''impact'' \<or> contains question_lower ''effect''
             then ''impact_analysis''
             else ''should_we'')
      in ParsedQuestion L (JStr treatment) (JArr (map JStr outcomes)) (JStr decision_type))"

subsection \<open>parse\_question\<close>

definition parse_prompt :: "string \<Rightarrow> string" where
  \<open>parse_prompt question =
     ''You are a causal reasoning expert analyzing business decisions.'' @ nl
     @ ''Question: '' @ question @ nl
     @ ''Extract the following in JSON format:'' @ nl
     @ ''1. "treatment": What action/change is being proposed?'' @ nl
     @ ''2. "outcomes": What metrics will this affect? (list)'' @ nl
     @ ''3. "decision_type": "impact_analysis" | "root_cause" | "should_we"'' @ nl
     @ ''Return ONLY valid JSON, no explanation.''\<close>

definition json_only :: string where
  "json_only = nl @ ''Return ONLY JSON, nothing else.''"

text \<open>The body of the \<^verbatim>\<open>try\<close> block of one attempt.\<close>

definition parse_attempt :: "libs \<Rightarrow> backend \<Rightarrow> string \<Rightarrow> pyexn + parsed_question" where
  "parse_attempt L llm prompt =
     (case llm prompt of
        Raises e \<Rightarrow> Inl e
      | Content text \<Rightarrow>
          (case parse_json_response (json_loads L) text of
             Inl e \<Rightarrow> Inl e
           | Inr result \<Rightarrow>
               (case py_get result ''treatment'' (JStr ''unknown'') of
                  Inl e \<Rightarrow> Inl e
                | Inr t \<Rightarrow>
                    (case py_get result ''outcomes'' (JArr []) of
                       Inl e \<Rightarrow> Inl e
                     | Inr os \<Rightarrow>
                         (case py_get result ''decision_type'' (JStr ''should_we'') of
                            Inl e \<Rightarrow> Inl e
                          | Inr d \<Rightarrow> ParsedQuestion L t os d)))))"

text \<open>
  The loop \<^verbatim>\<open>for attempt in range(LLM_MAX_RETRIES + 1)\<close>, entered with \<open>attempt = 0\<close>. An
  attempt goes on to the next one only when \<open>attempt < LLM_MAX_RETRIES\<close>, so the range
  is never exhausted and every attempt returns or raises.
\<close>

function parse_question_loop ::
  "libs \<Rightarrow> backend \<Rightarrow> string \<Rightarrow> string \<Rightarrow> nat \<Rightarrow> pyexn + parsed_question" where
  "parse_question_loop L llm question prompt attempt =
     (case parse_attempt L llm prompt of
        Inr parsed \<Rightarrow> Inr parsed
      | Inl (ConnectError m) \<Rightarrow>
          Inl (OllamaUnavailableError ''Ollama unavailable. Run: ollama serve'')
      | Inl e \<Rightarrow>
          if contains (lower (exn_text e)) ''not found''
          then Inl (ModelNotFoundError (''Model missing. Run: ollama pull '' @ OLLAMA_MODEL))
          else if attempt < LLM_MAX_RETRIES
          then parse_question_loop L llm question (prompt @ json_only) (Suc attempt)
          else rule_based_parse L question)"
  by pat_completeness auto
termination
  by (relation "measure (\<lambda>(L, llm, question, prompt, attempt). LLM_MAX_RETRIES - attempt)") auto

definition parse_question :: "libs \<Rightarrow> backend \<Rightarrow> string \<Rightarrow> pyexn + parsed_question" where
  "parse_question L llm question = parse_question_loop L llm question (parse_prompt question) 0"

subsection \<open>generate\_recommendation\<close>

text \<open>\<^verbatim>\<open>x[k] = v\<close>: only a dict takes a string key.\<close>

definition set_item :: "json \<Rightarrow> string \<Rightarrow> json \<Rightarrow> pyexn + json" where
  "set_item x k v =
     (case x of
        JObj kvs \<Rightarrow> Inr (JObj (AList.update k v kvs))
      | JArr xs \<Rightarrow> Inl (TypeError ''list indices must be integers or slices, not str'')
      | _ \<Rightarrow> Inl (TypeError ([CHR 0x27] @ type_name x @ [CHR 0x27]
                               @ '' object does not support item assignment'')))"

definition rule_based_recommendation :: "confounder_info list \<Rightarrow> string list \<Rightarrow> json" where
  "rule_based_recommendation confounders outcomes =
     (let has_confounders = (length confounders > 0)
      in JObj
          [(''decision_safe'', JBool (\<not> has_confounders)),
           (''confidence_level'', JStr ''LOW''),
           (''reasoning'',
              JStr ((if has_confounders
                     then ''Confounders detected - cannot safely attribute changes to proposed treatment.''
                     else ''No recent confounders detected.'') @ '' (LLM fallback mode)'')),
           (''suggested_action'', JStr (if has_confounders then ''WAIT'' else ''RUN_EXPERIMENT'')),
           (''action_details'',
              JStr (if has_confounders then ''Review confounders and wait for washout period.''
                    else ''Consider running a controlled experiment.'')),
           (''monitoring_required'', JArr (map JStr (take 3 outcomes))),
           (''stop_loss_triggers'',
              JArr [JStr ''Significant metric degradation'', JStr ''Unexpected side effects''])])"

definition recommendation_prompt ::
  "libs \<Rightarrow> string \<Rightarrow> string \<Rightarrow> string list \<Rightarrow> confounder_info list \<Rightarrow> string \<Rightarrow> string" where
  \<open>recommendation_prompt L question treatment outcomes confounders relevant_experiments =
     ''You are generating a decision brief for business leaders.'' @ nl
     @ ''Question: '' @ question @ nl
     @ ''Treatment: '' @ treatment @ nl
     @ ''Outcomes: '' @ str_of_list L outcomes @ nl
     @ ''Confounders Detected: '' @ json_dumps L confounders @ nl
     @ ''Past Experiments: '' @ relevant_experiments @ nl
     @ ''Generate a recommendation in JSON format:'' @ nl
     @ ''{'' @ nl
     @ ''"decision_safe": true/false,'' @ nl
     @ ''"confidence_level": "HIGH|MEDIUM|LOW",'' @ nl
     @ ''"reasoning": "2-3 sentence explanation",'' @ nl
     @ ''"suggested_action": "PROCEED|WAIT|RUN_EXPERIMENT",'' @ nl
     @ ''"action_details": "Specific next steps",'' @ nl
     @ ''"monitoring_required": ["metric1", "metric2"],'' @ nl
     @ ''"stop_loss_triggers": ["condition1", "condition2"]'' @ nl
     @ ''}'' @ nl
     @ ''If confounders exist, decision_safe MUST be false.'' @ nl
     @ ''Return ONLY valid JSON.''\<close>

definition recommend_attempt ::
  "libs \<Rightarrow> backend \<Rightarrow> confounder_info list \<Rightarrow> string \<Rightarrow> pyexn + json" where
  "recommend_attempt L llm confounders prompt =
     (case llm prompt of
        Raises e \<Rightarrow> Inl e
      | Content text \<Rightarrow>
          (case parse_json_response (json_loads L) text of
             Inl e \<Rightarrow> Inl e
           | Inr result \<Rightarrow>
               if confounders \<noteq> [] then set_item result ''decision_safe'' (JBool False)
               else Inr result))"

function generate_recommendation_loop ::
  "libs \<Rightarrow> backend \<Rightarrow> confounder_info list \<Rightarrow> string list \<Rightarrow> string \<Rightarrow> nat \<Rightarrow> pyexn + json" where
  "generate_recommendation_loop L llm confounders outcomes prompt attempt =
     (case recommend_attempt L llm confounders prompt of
        Inr result \<Rightarrow> Inr result
      | Inl (ConnectError m) \<Rightarrow>
          Inl (OllamaUnavailableError ''Ollama unavailable. Run: ollama serve'')
      | Inl e \<Rightarrow>
          if contains (lower (exn_text e)) ''not found''
          then Inl (ModelNotFoundError (''Model missing. Run: ollama pull '' @ OLLAMA_MODEL))
          else if attempt < LLM_MAX_RETRIES
          then generate_recommendation_loop L llm confounders outcomes (prompt @ json_only) (Suc attempt)
          else Inr (rule_based_recommendation confounders outcomes))"
  by pat_completeness auto
termination
  by (relation "measure (\<lambda>(L, llm, confounders, outcomes, prompt, attempt). LLM_MAX_RETRIES - attempt)") auto

definition generate_recommendation ::
  "libs \<Rightarrow> backend \<Rightarrow> string \<Rightarrow> string \<Rightarrow> string list \<Rightarrow> confounder_info list \<Rightarrow> string
     \<Rightarrow> pyexn + json" where
  "generate_recommendation L llm question treatment outcomes confounders relevant_experiments =
     generate_recommendation_loop L llm confounders outcomes
       (recommendation_prompt L question treatment outcomes confounders relevant_experiments) 0"

section \<open>Document retrieval (document\_service.py)\<close>

text \<open>
  The vector index is a collaborator: getting the collection may raise, and so may its
  \<^verbatim>\<open>count\<close> and its \<^verbatim>\<open>query\<close>, which otherwise gives the documents found, each with its
  metadata.
\<close>

record collection =
  col_count :: "pyexn + nat"
  col_query :: "string \<Rightarrow> nat \<Rightarrow> pyexn + (string \<times> json) list"

record retrieved_context =
  cx_relevant_experiments :: string
  cx_relevant_changes :: "json list"
  cx_kpi_info :: "(string \<times> json) list"
  cx_warnings :: "string list"

definition RAG_TOP_K :: nat where
  "RAG_TOP_K = 5"

text \<open>\<^verbatim>\<open>sep.join(xs)\<close>.\<close>

fun join :: "string \<Rightarrow> string list \<Rightarrow> string" where
  "join sep [] = []"
| "join sep [x] = x"
| "join sep (x # y # ys) = x @ sep @ join sep (y # ys)"

text \<open>
  The loop over the documents found. It returns the \<^verbatim>\<open>kpi_info\<close> dict as the loop left
  it, and the experiments collected or the exception that ended the loop.
\<close>

fun scan_results ::
  "(string \<Rightarrow> json option) \<Rightarrow> ((string \<times> json) list \<Rightarrow> json \<Rightarrow> pyexn + (string \<times> json) list)
     \<Rightarrow> (string \<times> json) list \<Rightarrow> string list \<Rightarrow> (string \<times> json) list
     \<Rightarrow> (string \<times> json) list \<times> (pyexn + string list)" where
  "scan_results loads update [] experiments kpi_info = (kpi_info, Inr experiments)"
| "scan_results loads update ((doc, meta) # rest) experiments kpi_info =
     (case py_get meta ''type'' (JStr ''unknown'') of
        Inl e \<Rightarrow> (kpi_info, Inl e)
      | Inr doc_type \<Rightarrow>
          if doc_type = JStr ''experiment''
          then scan_results loads update rest (experiments @ [doc]) kpi_info
          else if doc_type = JStr ''kpi''
          then (case loads doc of
                  Some kpi_data \<Rightarrow>
                    (case update kpi_info kpi_data of
                       Inl e \<Rightarrow> (kpi_info, Inl e)
                     | Inr kpi_info' \<Rightarrow> scan_results loads update rest experiments kpi_info')
                | None \<Rightarrow>
                    scan_results loads update rest experiments
                      (AList.update ''raw'' (JStr doc) kpi_info))
          else scan_results loads update rest experiments kpi_info)"

text \<open>The \<^verbatim>\<open>except\<close> handler of \<^verbatim>\<open>retrieve_context\<close>.\<close>

definition retrieval_error :: "retrieved_context \<Rightarrow> pyexn \<Rightarrow> retrieved_context" where
  "retrieval_error result e =
     result\<lparr>cx_warnings := cx_warnings result @ [''Document retrieval error: '' @ exn_text e]\<rparr>"

definition retrieve_context ::
  "(string \<Rightarrow> json option) \<Rightarrow> ((string \<times> json) list \<Rightarrow> json \<Rightarrow> pyexn + (string \<times> json) list)
     \<Rightarrow> pyexn + collection \<Rightarrow> string \<Rightarrow> string \<Rightarrow> string list \<Rightarrow> nat \<Rightarrow> retrieved_context" where
  "retrieve_context loads update get_collection query treatment outcomes n_results =
     (let result = \<lparr>cx_relevant_experiments = '''', cx_relevant_changes = [],
                     cx_kpi_info = [], cx_warnings = []\<rparr>
      in case get_collection of
           Inl e \<Rightarrow> retrieval_error result e
         | Inr collection \<Rightarrow>
             (case col_count collection of
                Inl e \<Rightarrow> retrieval_error result e
              | Inr n \<Rightarrow>
                  if n = 0
                  then result\<lparr>cx_warnings := cx_warnings result
                                 @ [''No documents indexed. Run ingest_documents.py'']\<rparr>
                  else
                    (let search_query = query @ '' '' @ treatment @ '' '' @ join '' '' outcomes
                     in case col_query collection search_query n_results of
                          Inl e \<Rightarrow> retrieval_error result e
                        | Inr found \<Rightarrow>
                            (case scan_results loads update found [] (cx_kpi_info result) of
                               (kpi_info, Inl e) \<Rightarrow>
                                 retrieval_error (result\<lparr>cx_kpi_info := kpi_info\<rparr>) e
                             | (kpi_info, Inr experiments) \<Rightarrow>
                                 result\<lparr>cx_kpi_info := kpi_info,
                                        cx_relevant_experiments :=
                                          (if experiments \<noteq> []
                                           then join (nl @ ''---'' @ nl) experiments
                                           else ''No relevant experiments found.'')\<rparr>))))"

text \<open>
  \<^verbatim>\<open>get_recent_changes\<close>: the changes file may be absent, reading it may raise, and
  otherwise it holds a list; every failure gives the empty list.
\<close>

definition get_recent_changes :: "(pyexn + json list) option \<Rightarrow> json list" where
  "get_recent_changes changes_file =
     (case changes_file of
        None \<Rightarrow> []
      | Some (Inl e) \<Rightarrow> []
      | Some (Inr all_changes) \<Rightarrow> all_changes)"

section \<open>Decision analysis (decision\_analyzer.py)\<close>

subsection \<open>Team impacts\<close>

definition TEAM_METRICS :: "(string \<times> string list) list" where
  "TEAM_METRICS =
     [(''growth'', [''conversion_rate'', ''trial_to_paid'', ''cac'']),
      (''product'', [''activation_rate'', ''churn_rate'', ''time_to_value'']),
      (''finance'', [''revenue'']),
      (''support'', [''nps'', ''support_satisfaction'']),
      (''operations'', [])]"

record team_impact =
  ti_team :: string
  ti_affected_metrics :: "string set"
  ti_direction :: string
  ti_risk_level :: string

text \<open>The inner loop: \<^verbatim>\<open>confounder_metrics.update(c.affected_metrics)\<close> for each confounder.\<close>

fun confounder_metrics :: "confounder_info list \<Rightarrow> string set \<Rightarrow> string set" where
  "confounder_metrics [] acc = acc"
| "confounder_metrics (c # cs) acc = confounder_metrics cs (acc \<union> ci_affected_metrics c)"

text \<open>The loop over the teams, in the order of the table.\<close>

fun assess_items ::
  "(string \<times> string list) list \<Rightarrow> string list \<Rightarrow> confounder_info list
     \<Rightarrow> team_impact list \<Rightarrow> team_impact list" where
  "assess_items [] outcomes confounders impacts = impacts"
| "assess_items ((team, team_metrics) # rest) outcomes confounders impacts =
     (let affected = set team_metrics \<inter> set outcomes
      in if affected \<noteq> {}
         then
           (let risk_level =
                  (if confounders \<noteq> []
                   then (if affected \<inter> confounder_metrics confounders {} \<noteq> {}
                         then ''high'' else ''medium'')
                   else ''low'')
            in assess_items rest outcomes confounders
                 (impacts @ [\<lparr>ti_team = team, ti_affected_metrics = affected,
                               ti_direction = ''uncertain'', ti_risk_level = risk_level\<rparr>]))
         else assess_items rest outcomes confounders impacts)"

definition assess_team_impacts :: "string list \<Rightarrow> confounder_info list \<Rightarrow> team_impact list" where
  "assess_team_impacts outcomes confounders = assess_items TEAM_METRICS outcomes confounders []"

subsection \<open>The response\<close>

record analyze_request =
  rq_question :: string
  rq_requester_team :: "string option"

record analyze_response =
  rs_decision_id :: string
  rs_question :: string
  rs_treatment :: "string option"
  rs_outcomes :: "string list option"
  rs_decision_safe :: bool
  rs_confidence_level :: string
  rs_suggested_action :: string
  rs_reasoning :: string
  rs_action_details :: "string option"
  rs_confounders_detected :: "confounder_info list"
  rs_monitoring_required :: "string list option"
  rs_stop_loss_triggers :: "string list option"
  rs_team_impacts :: "team_impact list option"
  rs_warnings :: "string list option"
  rs_created_at :: datetime

text \<open>
  Validation of the fields that \<^verbatim>\<open>AnalyzeResponse\<close> takes from the recommendation: a
  \<^verbatim>\<open>bool\<close> (another object goes through the library's coercion), a \<^verbatim>\<open>str\<close>, an optional
  \<^verbatim>\<open>str\<close> and an optional list of \<^verbatim>\<open>str\<close>.
\<close>

definition valid_bool :: "(json \<Rightarrow> bool option) \<Rightarrow> json \<Rightarrow> bool option" where
  "valid_bool coerce v = (case v of JBool b \<Rightarrow> Some b | _ \<Rightarrow> coerce v)"

definition valid_str :: "json \<Rightarrow> string option" where
  "valid_str v = (case v of JStr s \<Rightarrow> Some s | _ \<Rightarrow> None)"

definition valid_opt_str :: "json \<Rightarrow> string option option" where
  "valid_opt_str v = (case v of JNull \<Rightarrow> Some None | JStr s \<Rightarrow> Some (Some s) | _ \<Rightarrow> None)"

definition valid_opt_list :: "json \<Rightarrow> string list option option" where
  "valid_opt_list v =
     (case v of
        JNull \<Rightarrow> Some None
      | JArr xs \<Rightarrow> if list_all is_text xs then Some (Some (texts xs)) else None
      | _ \<Rightarrow> None)"

definition AnalyzeResponse ::
  "libs \<Rightarrow> string \<Rightarrow> string \<Rightarrow> string \<Rightarrow> string list \<Rightarrow> json \<Rightarrow> json \<Rightarrow> json \<Rightarrow> json \<Rightarrow> json
     \<Rightarrow> confounder_info list \<Rightarrow> json \<Rightarrow> json \<Rightarrow> team_impact list option \<Rightarrow> string list option
     \<Rightarrow> datetime \<Rightarrow> pyexn + analyze_response" where
  "AnalyzeResponse L decision_id question treatment outcomes decision_safe confidence_level
       suggested_action reasoning action_details confounders_detected monitoring_required
       stop_loss_triggers team_impacts warnings created_at =
     (case (valid_bool (lax_bool L) decision_safe, valid_str confidence_level,
            valid_str suggested_action, valid_str reasoning, valid_opt_str action_details,
            valid_opt_list monitoring_required, valid_opt_list stop_loss_triggers) of
        (Some ds, Some cl, Some sa, Some re, Some ad, Some mr, Some sl) \<Rightarrow>
          Inr \<lparr>rs_decision_id = decision_id, rs_question = question,
               rs_treatment = Some treatment, rs_outcomes = Some outcomes,
               rs_decision_safe = ds, rs_confidence_level = cl, rs_suggested_action = sa,
               rs_reasoning = re, rs_action_details = ad,
               rs_confounders_detected = confounders_detected,
               rs_monitoring_required = mr, rs_stop_loss_triggers = sl,
               rs_team_impacts = team_impacts, rs_warnings = warnings,
               rs_created_at = created_at\<rparr>
      | _ \<Rightarrow>
          Inl (ValidationError
                 (validation_text L ''AnalyzeResponse''
                    [decision_safe, confidence_level, suggested_action, reasoning,
                     action_details, monitoring_required, stop_loss_triggers])))"

text \<open>
  The response is built from the fields read from the recommendation with \<^verbatim>\<open>.get\<close> and their
  defaults, then the constructor.
\<close>

definition build_response ::
  "libs \<Rightarrow> string \<Rightarrow> analyze_request \<Rightarrow> parsed_question \<Rightarrow> json \<Rightarrow> bool \<Rightarrow> confounder_info list
     \<Rightarrow> team_impact list \<Rightarrow> string list \<Rightarrow> datetime \<Rightarrow> pyexn + analyze_response" where
  "build_response L decision_id request parsed recommendation decision_safe confounders
       team_impacts warnings created_at =
     (case py_get recommendation ''decision_safe'' (JBool decision_safe) of
        Inl e \<Rightarrow> Inl e
      | Inr ds \<Rightarrow>
     (case py_get recommendation ''confidence_level'' (JStr ''LOW'') of
        Inl e \<Rightarrow> Inl e
      | Inr cl \<Rightarrow>
     (case py_get recommendation ''suggested_action'' (JStr ''WAIT'') of
        Inl e \<Rightarrow> Inl e
      | Inr sa \<Rightarrow>
     (case py_get recommendation ''reasoning'' (JStr '''') of
        Inl e \<Rightarrow> Inl e
      | Inr re \<Rightarrow>
     (case py_get recommendation ''action_details'' JNull of
        Inl e \<Rightarrow> Inl e
      | Inr ad \<Rightarrow>
     (case py_get recommendation ''monitoring_required'' JNull of
        Inl e \<Rightarrow> Inl e
      | Inr mr \<Rightarrow>
     (case py_get recommendation ''stop_loss_triggers'' JNull of
        Inl e \<Rightarrow> Inl e
      | Inr sl \<Rightarrow>
          AnalyzeResponse L decision_id (rq_question request) (pq_treatment parsed)
            (pq_outcomes parsed) ds cl sa re ad confounders mr sl
            (if team_impacts \<noteq> [] then Some team_impacts else None)
            (if warnings \<noteq> [] then Some warnings else None)
            created_at)))))))"

subsection \<open>analyze\<close>

text \<open>
  What one request finds around it: the identifier generated for it, the backend, the
  index, the changes file, the clock (read by the confounder service and again for
  \<^verbatim>\<open>created_at\<close>), and the audit store, whose write of a response may raise.
\<close>

record world =
  w_decision_id :: string
  w_llm :: backend
  w_get_collection :: "pyexn + collection"
  w_changes_file :: "(pyexn + json list) option"
  w_current_date :: datetime
  w_created_at :: datetime
  w_log_decision :: "analyze_response \<Rightarrow> pyexn option"

text \<open>Step 1: the parsed question and the warnings so far.\<close>

definition parse_step :: "libs \<Rightarrow> world \<Rightarrow> analyze_request \<Rightarrow> pyexn + parsed_question \<times> string list" where
  "parse_step L W request =
     (case parse_question L (w_llm W) (rq_question request) of
        Inr parsed \<Rightarrow> Inr (parsed, [])
      | Inl (OllamaUnavailableError m) \<Rightarrow> Inl (OllamaUnavailableError m)
      | Inl (ModelNotFoundError m) \<Rightarrow> Inl (ModelNotFoundError m)
      | Inl e \<Rightarrow>
          Inr (\<lparr>pq_treatment = ''unknown'', pq_outcomes = [''conversion_rate''],
                 pq_decision_type = ''should_we''\<rparr>,
               [''Question parsing used fallback mode'']))"

text \<open>Step 4: the recommendation and the warning it adds.\<close>

definition recommend_step ::
  "libs \<Rightarrow> world \<Rightarrow> analyze_request \<Rightarrow> parsed_question \<Rightarrow> retrieved_context \<Rightarrow> detect_result
     \<Rightarrow> pyexn + json \<times> string list" where
  "recommend_step L W request parsed context confounder_result =
     (let confounders = dr_confounders confounder_result;
          decision_safe = dr_decision_safe confounder_result
      in case generate_recommendation L (w_llm W) (rq_question request) (pq_treatment parsed)
                (pq_outcomes parsed) confounders (cx_relevant_experiments context) of
           Inr recommendation \<Rightarrow> Inr (recommendation, [])
         | Inl (OllamaUnavailableError m) \<Rightarrow> Inl (OllamaUnavailableError m)
         | Inl (ModelNotFoundError m) \<Rightarrow> Inl (ModelNotFoundError m)
         | Inl e \<Rightarrow>
             Inr (JObj
                    [(''decision_safe'', JBool decision_safe),
                     (''confidence_level'', JStr ''LOW''),
                     (''reasoning'',
                        JStr ''Unable to generate full recommendation. Based on confounder analysis only.''),
                     (''suggested_action'',
                        JStr (if confounders \<noteq> [] then ''WAIT'' else ''RUN_EXPERIMENT'')),
                     (''action_details'', JStr ''Review detected confounders.''),
                     (''monitoring_required'', JArr (map JStr (pq_outcomes parsed))),
                     (''stop_loss_triggers'', JArr [])],
                  [''Recommendation generation used fallback mode'']))"

text \<open>Step 6: the write to the audit store, caught when it raises.\<close>

definition log_step :: "world \<Rightarrow> analyze_response \<Rightarrow> analyze_response" where
  "log_step W response =
     (case w_log_decision W response of
        None \<Rightarrow> response
      | Some e \<Rightarrow>
          response\<lparr>rs_warnings :=
            Some ((case rs_warnings response of None \<Rightarrow> [] | Some ws \<Rightarrow> ws)
                  @ [''Decision logging failed''])\<rparr>)"

text \<open>Step 2: the retrieved context, and the warnings extended by its warnings.\<close>

definition retrieve_step ::
  "libs \<Rightarrow> world \<Rightarrow> analyze_request \<Rightarrow> parsed_question \<Rightarrow> string list
     \<Rightarrow> retrieved_context \<times> string list" where
  "retrieve_step L W request parsed warnings =
     (let context = retrieve_context (json_loads L) (dict_update L) (w_get_collection W)
                      (rq_question request) (pq_treatment parsed) (pq_outcomes parsed) RAG_TOP_K
      in (context,
          if cx_warnings context \<noteq> [] then warnings @ cx_warnings context else warnings))"

definition analyze :: "libs \<Rightarrow> world \<Rightarrow> analyze_request \<Rightarrow> pyexn + analyze_response" where
  "analyze L W request =
     (case parse_step L W request of
        Inl e \<Rightarrow> Inl e
      | Inr (parsed, warnings1) \<Rightarrow>
          (case retrieve_step L W request parsed warnings1 of
             (context, warnings2) \<Rightarrow>
               (let recent_changes = get_recent_changes (w_changes_file W)
                in (case detect_confounders (dateutil_parse L) (w_current_date W) recent_changes
                           (pq_outcomes parsed) of
                      Inl e \<Rightarrow> Inl e
                    | Inr confounder_result \<Rightarrow>
                        (case recommend_step L W request parsed context confounder_result of
                           Inl e \<Rightarrow> Inl e
                         | Inr (recommendation, warnings3) \<Rightarrow>
                             (let confounders = dr_confounders confounder_result;
                                  team_impacts = assess_team_impacts (pq_outcomes parsed) confounders
                              in (case build_response L (w_decision_id W) request parsed
                                         recommendation (dr_decision_safe confounder_result)
                                         confounders team_impacts (warnings2 @ warnings3)
                                         (w_created_at W) of
                                    Inl e \<Rightarrow> Inl e
                                  | Inr response \<Rightarrow> Inr (log_step W response))))))))"

section \<open>Reference definitions and predicates used in the statements\<close>

subsection \<open>Confounder detection as the specification words it\<close>

definition is_dict :: "json \<Rightarrow> bool" where
  "is_dict v = (case v of JObj kvs \<Rightarrow> True | _ \<Rightarrow> False)"


definition aware :: "datetime \<Rightarrow> datetime" where
  "aware d = (if tz_offset_us d = None then replace_tzinfo_utc d else d)"

text \<open>
  The date of a change, when it has one that parses: the field is present, it is a
  string, the string is not empty and the date parser accepts it.
\<close>

definition change_date :: "(string \<Rightarrow> datetime option) \<Rightarrow> json \<Rightarrow> datetime option" where
  "change_date parse_date change =
     (case change of
        JObj kvs \<Rightarrow>
          (case map_of kvs ''date'' of
             Some (JStr s) \<Rightarrow> if s = [] then None else parse_date s
           | _ \<Rightarrow> None)
      | _ \<Rightarrow> None)"







text \<open>
  A change event with the types of the data model: a dict whose \<^verbatim>\<open>id\<close> and
  \<^verbatim>\<open>ci_description\<close>, where present, are text, and whose \<^verbatim>\<open>ci_affected_metrics\<close>, where present,
  is a list of metric names. Nothing is asked of the date.
\<close>

fun text_or_absent :: "json option \<Rightarrow> bool" where
  "text_or_absent None = True"
| "text_or_absent (Some (JStr s)) = True"
| "text_or_absent (Some v) = False"



text \<open>
  A malformed change: its date is missing, empty, not a string or does not parse, or its
  \<^verbatim>\<open>id\<close> or \<^verbatim>\<open>ci_description\<close> is not text, or \<^verbatim>\<open>set\<close> refuses its \<^verbatim>\<open>ci_affected_metrics\<close>
  (not iterable, or with an unhashable member). An \<^verbatim>\<open>ci_affected_metrics\<close> that is a string
  or a dict is iterated by \<^verbatim>\<open>set\<close> like a list and is not counted here.
\<close>

fun set_accepts :: "json option \<Rightarrow> bool" where
  "set_accepts None = True"
| "set_accepts (Some (JArr ms)) = list_all hashable ms"
| "set_accepts (Some (JStr s)) = True"
| "set_accepts (Some (JObj kvs)) = True"
| "set_accepts (Some v) = False"

definition malformed :: "(string \<Rightarrow> datetime option) \<Rightarrow> json \<Rightarrow> bool" where
  "malformed parse_date change =
     (case change of
        JObj kvs \<Rightarrow>
          change_date parse_date change = None
          \<or> \<not> text_or_absent (map_of kvs ''id'')
          \<or> \<not> text_or_absent (map_of kvs ''description'')
          \<or> \<not> set_accepts (map_of kvs ''affected_metrics'')
      | _ \<Rightarrow> True)"

text \<open>The records one change adds to the list, whatever the loop has seen before.\<close>

definition emitted ::
  "(string \<Rightarrow> datetime option) \<Rightarrow> datetime \<Rightarrow> string list \<Rightarrow> json \<Rightarrow> confounder_info list" where
  "emitted parse_date current_date outcomes change =
     (case snd (process_change parse_date current_date outcomes change) of
        Inr (Some confounder) \<Rightarrow> [confounder]
      | _ \<Rightarrow> [])"

subsection \<open>Team impacts as the specification words them\<close>

text \<open>
  The risk of a team: high when its affected metrics meet the union of the confounders'
  metrics, medium when there are confounders that do not, low when there is none.
\<close>

definition expected_risk :: "string set \<Rightarrow> confounder_info list \<Rightarrow> string" where
  "expected_risk affected confounders =
     (if confounders = [] then ''low''
      else if affected \<inter> (\<Union>c \<in> set confounders. ci_affected_metrics c) \<noteq> {} then ''high''
      else ''medium'')"

definition expected_impact :: "string list \<Rightarrow> confounder_info list \<Rightarrow> string \<times> string list \<Rightarrow> team_impact" where
  "expected_impact outcomes confounders item =
     \<lparr>ti_team = fst item,
      ti_affected_metrics = set (snd item) \<inter> set outcomes,
      ti_direction = ''uncertain'',
      ti_risk_level = expected_risk (set (snd item) \<inter> set outcomes) confounders\<rparr>"

definition owns_outcome :: "string list \<Rightarrow> string \<times> string list \<Rightarrow> bool" where
  "owns_outcome outcomes item = (set (snd item) \<inter> set outcomes \<noteq> {})"

subsection \<open>Words of the specification about the parser and the pipeline\<close>

text \<open>Why/cause language and impact/effect language in a question.\<close>

definition why_language :: "string \<Rightarrow> bool" where
  "why_language question =
     (contains (lower question) ''why'' \<or> contains (lower question) ''cause'')"

definition impact_language :: "string \<Rightarrow> bool" where
  "impact_language question =
     (contains (lower question) ''impact'' \<or> contains (lower question) ''effect'')"

text \<open>The metrics of the keywords that occur in a question, in the order of the table.\<close>

definition matching_metrics :: "string \<Rightarrow> string list" where
  "matching_metrics question =
     map snd (filter (\<lambda>entry. contains (lower question) (fst entry)) metric_keywords)"

text \<open>The two errors that reach the caller, and the exception of a failed connection.\<close>

definition is_connect_error :: "pyexn \<Rightarrow> bool" where
  "is_connect_error e = (case e of ConnectError m \<Rightarrow> True | _ \<Rightarrow> False)"

definition hard_error :: "pyexn \<Rightarrow> bool" where
  "hard_error e =
     (case e of OllamaUnavailableError m \<Rightarrow> True | ModelNotFoundError m \<Rightarrow> True | _ \<Rightarrow> False)"





section \<open>Data of the test suite\<close>

text \<open>
  The dates of tests/test\_confounder.py as days since 1970-01-01, the date parser on
  those strings, and the reference date 2026-01-18 (UTC).
\<close>

definition at_midnight :: "int \<Rightarrow> int option \<Rightarrow> datetime" where
  "at_midnight day tz = \<lparr>wall_us = day * us_per_day, tz_offset_us = tz\<rparr>"

definition test_parse_date :: "string \<Rightarrow> datetime option" where
  "test_parse_date s =
     (if s = ''2026-01-15'' then Some (at_midnight 20468 None)
      else if s = ''2026-01-17'' then Some (at_midnight 20470 None)
      else if s = ''2026-01-11'' then Some (at_midnight 20464 None)
      else if s = ''2025-12-29'' then Some (at_midnight 20451 None)
      else None)"

definition test_reference_date :: datetime where
  "test_reference_date = at_midnight 20471 (Some 0)"

definition test_change :: json where
  "test_change =
     JObj [(''id'', JStr ''CHG-2026-001''),
           (''date'', JStr ''2026-01-15''),
           (''type'', JStr ''pricing''),
           (''description'', JStr ''Increased enterprise tier pricing by 15%''),
           (''affected_metrics'', JArr [JStr ''conversion_rate'', JStr ''revenue'', JStr ''churn_rate''])]"

definition test_confounder :: confounder_info where
  "test_confounder =
     \<lparr>ci_change_id = ''CHG-2026-001'',
      ci_description = ''Increased enterprise tier pricing by 15%'',
      ci_days_ago = 3,
      ci_affected_metrics = {''conversion_rate''},
      ci_confidence = 936 / 1000\<rparr>"

text \<open>Changes that cannot be processed: no date, an unreadable date, a number for a date,
  a number for an id, a number for the metrics.\<close>

definition broken_changes :: "json list" where
  "broken_changes =
     [JObj [(''id'', JStr ''CHG-A'')],
      JObj [(''id'', JStr ''CHG-B''), (''date'', JStr '''')],
      JObj [(''id'', JStr ''CHG-C''), (''date'', JStr ''soon'')],
      JObj [(''id'', JStr ''CHG-D''), (''date'', JInt 20260115)],
      JObj [(''id'', JInt 7), (''date'', JStr ''2026-01-15''),
            (''affected_metrics'', JArr [JStr ''conversion_rate''])],
      JObj [(''id'', JStr ''CHG-F''), (''date'', JStr ''2026-01-15''),
            (''affected_metrics'', JInt 3)]]"

text \<open>
  A backend for the examples. It answers the parsing prompt with a well-formed
  extraction and every other prompt with a brief that claims the decision is safe. The
  decoder knows these two texts and the extraction that names no outcomes.
\<close>

definition parsed_reply :: string where
  \<open>parsed_reply =
     ''{"treatment": "reduce trial", "outcomes": ["conversion_rate", "activation_rate"], "decision_type": "should_we"}''\<close>

definition brief_reply :: string where
  \<open>brief_reply =
     ''{"decision_safe": true, "confidence_level": "HIGH", "reasoning": "No risk seen.", "suggested_action": "PROCEED"}''\<close>

definition no_outcomes_reply :: string where
  \<open>no_outcomes_reply = ''{"treatment": "reduce trial"}''\<close>

definition not_found_reply :: string where
  "not_found_reply = ''Sorry, the requested information was not found.''"

definition test_loads :: "string \<Rightarrow> json option" where
  "test_loads s =
     (if s = parsed_reply
      then Some (JObj [(''treatment'', JStr ''reduce trial''),
                       (''outcomes'', JArr [JStr ''conversion_rate'', JStr ''activation_rate'']),
                       (''decision_type'', JStr ''should_we'')])
      else if s = brief_reply
      then Some (JObj [(''decision_safe'', JBool True),
                       (''confidence_level'', JStr ''HIGH''),
                       (''reasoning'', JStr ''No risk seen.''),
                       (''suggested_action'', JStr ''PROCEED'')])
      else if s = no_outcomes_reply
      then Some (JObj [(''treatment'', JStr ''reduce trial'')])
      else None)"

definition test_libs :: libs where
  "test_libs =
     \<lparr>json_loads = test_loads,
      dateutil_parse = test_parse_date,
      validation_text = (\<lambda>model inputs. ''1 validation error for '' @ model),
      lax_bool = (\<lambda>v. None),
      str_of_list = (\<lambda>xs. ''['' @ join '', '' xs @ '']''),
      json_dumps = (\<lambda>cs. ''[...]''),
      dict_update = (\<lambda>d v. case v of JObj kvs \<Rightarrow> Inr (kvs @ d)
                             | _ \<Rightarrow> Inl (TypeError ''cannot convert dictionary update sequence''))\<rparr>"

definition test_llm :: backend where
  "test_llm prompt =
     (if starts_with ''You are a causal reasoning expert'' prompt
      then Content parsed_reply else Content brief_reply)"

definition test_request :: analyze_request where
  "test_request =
     \<lparr>rq_question = ''Should we reduce trial from 14 to 7 days?'', rq_requester_team = None\<rparr>"

text \<open>A world in which the index cannot be opened and the audit store refuses the write.\<close>

definition test_world :: world where
  "test_world =
     \<lparr>w_decision_id = ''DEC-20260118-0A1B2C3D'',
      w_llm = test_llm,
      w_get_collection = Inl (OtherError ''index unavailable''),
      w_changes_file = Some (Inr [test_change]),
      w_current_date = test_reference_date,
      w_created_at = test_reference_date,
      w_log_decision = (\<lambda>response. Some (OtherError ''database is locked''))\<rparr>"

text \<open>
  A backend whose brief holds none of the fields of a recommendation, and a world with
  an empty index, no changes file and a working audit store.
\<close>

definition sparse_llm :: backend where
  "sparse_llm prompt =
     (if starts_with ''You are a causal reasoning expert'' prompt
      then Content parsed_reply else Content no_outcomes_reply)"

definition quiet_world :: world where
  "quiet_world =
     \<lparr>w_decision_id = ''DEC-20260118-4E5F6A7B'',
      w_llm = sparse_llm,
      w_get_collection = Inr \<lparr>col_count = Inr 0, col_query = (\<lambda>q n. Inr [])\<rparr>,
      w_changes_file = None,
      w_current_date = test_reference_date,
      w_created_at = test_reference_date,
      w_log_decision = (\<lambda>response. None)\<rparr>"

section \<open>Properties of confounder detection\<close>

lemma aware_idem: "aware (aware d) = aware d"
  by (simp add: aware_def replace_tzinfo_utc_def)

lemma process_change_fst:
  "fst (process_change pd cur outs c) = cur \<or> fst (process_change pd cur outs c) = aware cur"
  by (simp add: process_change_def aware_def Let_def split: sum.splits)

lemma process_change_snd_aware:
  "snd (process_change pd (aware cur) outs c) = snd (process_change pd cur outs c)"
  by (simp add: process_change_def aware_def Let_def replace_tzinfo_utc_def split: sum.splits)

lemma emitted_aware: "emitted pd (aware cur) outs c = emitted pd cur outs c"
  by (simp add: emitted_def process_change_snd_aware)

lemma emitted_fst: "emitted pd (fst (process_change pd cur outs c')) outs c = emitted pd cur outs c"
  using process_change_fst [of pd cur outs c'] by (auto simp: emitted_aware)

lemma log_skipped_dict: "is_dict c \<Longrightarrow> log_skipped c = Inr ()"
  by (auto simp: is_dict_def log_skipped_def py_get_def split: json.splits)

lemma detect_loop_dicts:
  "list_all is_dict cs \<Longrightarrow>
   detect_loop pd cur outs cs acc = Inr (acc @ concat (map (emitted pd cur outs) cs))"
proof (induction cs arbitrary: cur acc)
  case Nil
  then show ?case by simp
next
  case (Cons c cs)
  obtain cur' res where pc: "process_change pd cur outs c = (cur', res)"
    by (cases "process_change pd cur outs c")
  have cur': "\<And>x. emitted pd cur' outs x = emitted pd cur outs x"
    using emitted_fst [of pd cur outs c] pc by simp
  have em: "emitted pd cur outs c = (case res of Inr (Some r) \<Rightarrow> [r] | _ \<Rightarrow> [])"
    by (simp add: emitted_def pc)
  from Cons.prems have d: "is_dict c" and ds: "list_all is_dict cs" by simp_all
  show ?case
    using Cons.IH [OF ds, of cur'] log_skipped_dict [OF d]
    by (simp add: pc em cur' split: sum.splits option.splits)
qed









lemma emitted_no_date:
  assumes "is_dict c" "change_date pd c = None"
  shows "emitted pd cur outs c = []"
proof -
  from assms(1) obtain kvs where c: "c = JObj kvs"
    by (auto simp: is_dict_def split: json.splits)
  from assms(2) have "snd (process_change pd cur outs c) = Inr None \<or> isl (snd (process_change pd cur outs c))"
      by (auto simp: c change_date_def process_change_def py_get_def dict_get_def parse_date_obj_def
          split: option.splits json.splits if_splits)
  then show ?thesis
    by (auto simp: emitted_def split: sum.splits)
qed

lemma ConfounderInfo_Inr:
  "ConfounderInfo cid descr days ms conf = Inr r \<Longrightarrow> (\<exists>i d. cid = JStr i \<and> descr = JStr d)"
  by (auto simp: ConfounderInfo_def split: json.splits)

lemma process_change_Some:
  assumes "snd (process_change pd cur outs (JObj kvs)) = Inr (Some r)"
  shows "text_or_absent (map_of kvs ''id'') \<and> text_or_absent (map_of kvs ''description'')
         \<and> set_accepts (map_of kvs ''affected_metrics'')"
proof -
  let ?ms = "dict_get kvs ''affected_metrics'' (JArr [])"
  let ?id = "dict_get kvs ''id'' (JStr ''unknown'')"
  let ?de = "dict_get kvs ''description'' (JStr ''Unknown change'')"
  from assms obtain M days m conf where
    "py_set ?ms = Inr M" and "ConfounderInfo ?id ?de days m conf = Inr r"
    by (auto simp: process_change_def py_get_def Let_def split: sum.splits if_splits)
  then have a: "\<not> isl (py_set ?ms)" and b: "\<exists>i. ?id = JStr i" and c: "\<exists>d. ?de = JStr d"
    using ConfounderInfo_Inr by fastforce+
  from a have "set_accepts (map_of kvs ''affected_metrics'')"
    by (auto simp: dict_get_def py_set_def split: option.splits json.splits if_splits)
  moreover from b have "text_or_absent (map_of kvs ''id'')"
    by (auto simp: dict_get_def split: option.splits)
  moreover from c have "text_or_absent (map_of kvs ''description'')"
    by (auto simp: dict_get_def split: option.splits)
  ultimately show ?thesis by simp
qed

lemma emitted_malformed:
  assumes "is_dict c" "malformed pd c"
  shows "emitted pd cur outs c = []"
proof -
  from assms(1) obtain kvs where c: "c = JObj kvs"
    by (auto simp: is_dict_def split: json.splits)
  show ?thesis
  proof (cases "change_date pd c = None")
    case True
    then show ?thesis using assms(1) by (rule emitted_no_date [rotated])
  next
    case False
    with assms(2) have "\<not> (text_or_absent (map_of kvs ''id'') \<and> text_or_absent (map_of kvs ''description'')
         \<and> set_accepts (map_of kvs ''affected_metrics''))"
      by (auto simp: malformed_def c)
    then have "\<And>r. snd (process_change pd cur outs c) \<noteq> Inr (Some r)"
      using process_change_Some [of pd cur outs kvs] unfolding c by blast
    then show ?thesis
      by (auto simp: emitted_def split: sum.splits option.splits)
  qed
qed

lemma concat_emitted_filter:
  "list_all is_dict cs \<Longrightarrow>
   concat (map (emitted pd cur outs) (filter (\<lambda>c. \<not> malformed pd c) cs))
     = concat (map (emitted pd cur outs) cs)"
  by (induction cs) (simp_all add: emitted_malformed)

lemma filter_dicts: "list_all is_dict cs \<Longrightarrow> list_all is_dict (filter P cs)"
  by (induction cs) simp_all










subsection \<open>C2: detection equals its reference definition\<close>




subsection \<open>C4: detection is total on change dicts\<close>

text \<open>
  Claim C4. On every list of change dicts, whatever their fields hold,
  \<open>detect_confounders\<close> returns a result and raises nothing. A malformed change adds no
  record and leaves the processing of the other changes as it is: the result is the one
  of the list without its malformed changes.
\<close>

theorem detect_confounders_total:
  assumes "list_all is_dict changes"
  shows "\<exists>r. detect_confounders pd ref changes outs = Inr r
            \<and> detect_confounders pd ref (filter (\<lambda>c. \<not> malformed pd c) changes) outs = Inr r
            \<and> (\<forall>c \<in> set changes. malformed pd c \<longrightarrow> emitted pd ref outs c = [])"
proof -
  let ?kept = "filter (\<lambda>c. \<not> malformed pd c) changes"
  have a: "detect_loop pd ref outs changes [] = Inr (concat (map (emitted pd ref outs) changes))"
    using detect_loop_dicts [OF assms, of pd ref outs "[]"] by simp
  have b: "detect_loop pd ref outs ?kept [] = Inr (concat (map (emitted pd ref outs) changes))"
    using detect_loop_dicts [OF filter_dicts [OF assms], of pd ref outs _ "[]"]
      concat_emitted_filter [OF assms, of pd ref outs] by simp
  have c: "\<forall>c \<in> set changes. malformed pd c \<longrightarrow> emitted pd ref outs c = []"
    using assms emitted_malformed by (auto simp: list_all_iff)
  show ?thesis
    using c by (simp add: detect_confounders_def a b Let_def)
qed

theorem detect_confounders_total_witness:
  "list_all is_dict (broken_changes @ [test_change])
   \<and> list_all (malformed test_parse_date) broken_changes
   \<and> detect_confounders test_parse_date test_reference_date (broken_changes @ [test_change])
         [''conversion_rate'', ''activation_rate'']
       = Inr \<lparr>dr_confounders = [test_confounder], dr_decision_safe = False, dr_total_confounders = 1\<rparr>"
proof -
  have h: "list_all is_dict (broken_changes @ [test_change])"
    by code_simp
  have m: "list_all (malformed test_parse_date) broken_changes"
    by code_simp
  have k: "filter (\<lambda>c. \<not> malformed test_parse_date c) (broken_changes @ [test_change]) = [test_change]"
    by code_simp
  have run: "detect_confounders test_parse_date test_reference_date [test_change]
         [''conversion_rate'', ''activation_rate'']
       = Inr \<lparr>dr_confounders = [test_confounder], dr_decision_safe = False, dr_total_confounders = 1\<rparr>"
    by code_simp
  from detect_confounders_total [OF h, of test_parse_date test_reference_date
      "[''conversion_rate'', ''activation_rate'']"]
  show ?thesis
    unfolding k using h m run by auto
qed

section \<open>Properties of the team impact assessment\<close>

lemma confounder_metrics_union:
  "confounder_metrics cs acc = acc \<union> (\<Union>c \<in> set cs. ci_affected_metrics c)"
  by (induction cs arbitrary: acc) auto

lemma assess_items_eq:
  "assess_items items outcomes confounders impacts =
   impacts @ map (expected_impact outcomes confounders) (filter (owns_outcome outcomes) items)"
proof (induction items arbitrary: impacts)
  case Nil
  then show ?case by simp
next
  case (Cons item items)
  obtain team team_metrics where item: "item = (team, team_metrics)"
    by (cases item)
  show ?case
    unfolding item
    by (simp add: Cons.IH Let_def owns_outcome_def expected_impact_def expected_risk_def
        confounder_metrics_union)
qed

lemma team_names_distinct: "distinct (map fst TEAM_METRICS)"
  by (simp add: TEAM_METRICS_def)

subsection \<open>C7: one record for each team that owns an outcome\<close>

text \<open>
  Claim C7. The assessment gives exactly one record for each team of the table whose
  metrics meet the outcomes, in the order of the table, and none for the other teams.
  The record holds the overlap, the direction \<open>uncertain\<close>, and the risk level: high if
  the overlap meets the union of the confounders' metrics, medium if there are
  confounders but the overlap meets none of their metrics, low without confounders.
\<close>

theorem assess_team_impacts_spec:
  "assess_team_impacts outcomes confounders
     = map (expected_impact outcomes confounders) (filter (owns_outcome outcomes) TEAM_METRICS)
   \<and> map ti_team (assess_team_impacts outcomes confounders)
       = map fst (filter (owns_outcome outcomes) TEAM_METRICS)
   \<and> distinct (map ti_team (assess_team_impacts outcomes confounders))
   \<and> (\<forall>r \<in> set (assess_team_impacts outcomes confounders).
         ti_affected_metrics r \<noteq> {} \<and> ti_direction r = ''uncertain''
         \<and> (\<exists>ms. (ti_team r, ms) \<in> set TEAM_METRICS \<and> ti_affected_metrics r = set ms \<inter> set outcomes)
         \<and> ti_risk_level r =
             (if confounders = [] then ''low''
              else if ti_affected_metrics r \<inter> (\<Union>c \<in> set confounders. ci_affected_metrics c) \<noteq> {}
              then ''high'' else ''medium''))"
proof -
  let ?kept = "filter (owns_outcome outcomes) TEAM_METRICS"
  have eq: "assess_team_impacts outcomes confounders = map (expected_impact outcomes confounders) ?kept"
    by (simp add: assess_team_impacts_def assess_items_eq)
  have names: "map ti_team (assess_team_impacts outcomes confounders) = map fst ?kept"
    by (simp add: eq expected_impact_def o_def)
  have dist: "distinct (map ti_team (assess_team_impacts outcomes confounders))"
    unfolding names using team_names_distinct by (rule distinct_map_filter)
  have each: "\<forall>r \<in> set (assess_team_impacts outcomes confounders).
         ti_affected_metrics r \<noteq> {} \<and> ti_direction r = ''uncertain''
         \<and> (\<exists>ms. (ti_team r, ms) \<in> set TEAM_METRICS \<and> ti_affected_metrics r = set ms \<inter> set outcomes)
         \<and> ti_risk_level r =
             (if confounders = [] then ''low''
              else if ti_affected_metrics r \<inter> (\<Union>c \<in> set confounders. ci_affected_metrics c) \<noteq> {}
              then ''high'' else ''medium'')"
    unfolding eq by (auto simp: expected_impact_def expected_risk_def owns_outcome_def)
  show ?thesis using eq names dist each by blast
qed

theorem assess_team_impacts_spec_witness:
  "assess_team_impacts [''conversion_rate'', ''revenue''] [test_confounder]
     = [\<lparr>ti_team = ''growth'', ti_affected_metrics = {''conversion_rate''},
          ti_direction = ''uncertain'', ti_risk_level = ''high''\<rparr>,
        \<lparr>ti_team = ''finance'', ti_affected_metrics = {''revenue''},
          ti_direction = ''uncertain'', ti_risk_level = ''medium''\<rparr>]"
proof -
  have "map (expected_impact [''conversion_rate'', ''revenue''] [test_confounder])
          (filter (owns_outcome [''conversion_rate'', ''revenue'']) TEAM_METRICS)
     = [\<lparr>ti_team = ''growth'', ti_affected_metrics = {''conversion_rate''},
          ti_direction = ''uncertain'', ti_risk_level = ''high''\<rparr>,
        \<lparr>ti_team = ''finance'', ti_affected_metrics = {''revenue''},
          ti_direction = ''uncertain'', ti_risk_level = ''medium''\<rparr>]"
    by code_simp
  with assess_team_impacts_spec [of "[''conversion_rate'', ''revenue'']" "[test_confounder]"]
  show ?thesis by simp
qed

section \<open>Properties of the parser and the synthesizer\<close>

declare generate_recommendation_loop.simps [simp del]
declare parse_question_loop.simps [simp del]

lemma is_text_map_JStr: "list_all is_text (map JStr xs)"
  by (induction xs) simp_all

lemma texts_map_JStr: "texts (map JStr xs) = xs"
  by (induction xs) simp_all

lemma ParsedQuestion_texts:
  "ParsedQuestion L (JStr t) (JArr (map JStr os)) (JStr d)
     = Inr \<lparr>pq_treatment = t, pq_outcomes = os, pq_decision_type = d\<rparr>"
  by (simp add: ParsedQuestion_def is_text_map_JStr texts_map_JStr)

lemma extract_outcomes_filter:
  "extract_outcomes ql table = map snd (filter (\<lambda>entry. contains ql (fst entry)) table)"
  by (induction ql table rule: extract_outcomes.induct) simp_all

lemma rule_based_parse_Inr: "\<exists>p. rule_based_parse L question = Inr p"
  by (simp add: rule_based_parse_def Let_def ParsedQuestion_texts)

text \<open>One turn of each retry loop, with the handlers written as tests on the exception.\<close>

lemma generate_recommendation_loop_step:
  "generate_recommendation_loop L llm confounders outcomes prompt attempt =
     (case recommend_attempt L llm confounders prompt of
        Inr result \<Rightarrow> Inr result
      | Inl e \<Rightarrow>
          if is_connect_error e
          then Inl (OllamaUnavailableError ''Ollama unavailable. Run: ollama serve'')
          else if contains (lower (exn_text e)) ''not found''
          then Inl (ModelNotFoundError (''Model missing. Run: ollama pull '' @ OLLAMA_MODEL))
          else if attempt < LLM_MAX_RETRIES
          then generate_recommendation_loop L llm confounders outcomes (prompt @ json_only) (Suc attempt)
          else Inr (rule_based_recommendation confounders outcomes))"
  by (subst generate_recommendation_loop.simps)
     (simp add: is_connect_error_def split: sum.splits pyexn.splits)

lemma parse_question_loop_step:
  "parse_question_loop L llm question prompt attempt =
     (case parse_attempt L llm prompt of
        Inr parsed \<Rightarrow> Inr parsed
      | Inl e \<Rightarrow>
          if is_connect_error e
          then Inl (OllamaUnavailableError ''Ollama unavailable. Run: ollama serve'')
          else if contains (lower (exn_text e)) ''not found''
          then Inl (ModelNotFoundError (''Model missing. Run: ollama pull '' @ OLLAMA_MODEL))
          else if attempt < LLM_MAX_RETRIES
          then parse_question_loop L llm question (prompt @ json_only) (Suc attempt)
          else rule_based_parse L question)"
  by (subst parse_question_loop.simps)
     (simp add: is_connect_error_def split: sum.splits pyexn.splits)

lemma set_item_decision_safe:
  "set_item result ''decision_safe'' (JBool False) = Inr r \<Longrightarrow>
   py_get r ''decision_safe'' d = Inr (JBool False)"
  by (auto simp: set_item_def py_get_def dict_get_def update_conv' split: json.splits)

lemma recommend_attempt_unsafe:
  "recommend_attempt L llm confounders prompt = Inr r \<Longrightarrow> confounders \<noteq> [] \<Longrightarrow>
   py_get r ''decision_safe'' d = Inr (JBool False)"
  by (auto simp: recommend_attempt_def set_item_decision_safe
      split: invoke_result.splits sum.splits)

lemma rule_based_recommendation_unsafe:
  "confounders \<noteq> [] \<Longrightarrow>
   py_get (rule_based_recommendation confounders outcomes) ''decision_safe'' d = Inr (JBool False)"
  by (simp add: rule_based_recommendation_def py_get_def dict_get_def)

lemma generate_recommendation_loop_unsafe:
  "generate_recommendation_loop L llm confounders outcomes prompt attempt = Inr r \<Longrightarrow>
   confounders \<noteq> [] \<Longrightarrow> py_get r ''decision_safe'' d = Inr (JBool False)"
proof (induction "LLM_MAX_RETRIES - attempt" arbitrary: attempt prompt)
  case 0
  then show ?case
    by (subst (asm) generate_recommendation_loop_step)
       (auto simp: recommend_attempt_unsafe rule_based_recommendation_unsafe
          split: sum.splits if_splits)
next
  case (Suc n)
  from Suc.hyps(2) have less: "attempt < LLM_MAX_RETRIES" and n: "n = LLM_MAX_RETRIES - Suc attempt"
    by simp_all
  from Suc.prems(1) show ?case
    by (subst (asm) generate_recommendation_loop_step)
       (auto simp: recommend_attempt_unsafe less Suc.prems(2)
          intro: Suc.hyps(1) [OF n] split: sum.splits if_splits)
qed

lemma generate_recommendation_loop_errors:
  "generate_recommendation_loop L llm confounders outcomes prompt attempt = Inl e \<Longrightarrow> hard_error e"
proof (induction "LLM_MAX_RETRIES - attempt" arbitrary: attempt prompt)
  case 0
  then show ?case
    by (subst (asm) generate_recommendation_loop_step)
       (auto simp: hard_error_def split: sum.splits if_splits)
next
  case (Suc n)
  from Suc.hyps(2) have less: "attempt < LLM_MAX_RETRIES" and n: "n = LLM_MAX_RETRIES - Suc attempt"
    by simp_all
  from Suc.prems(1) show ?case
    by (subst (asm) generate_recommendation_loop_step)
       (auto simp: hard_error_def less intro: Suc.hyps(1) [OF n, unfolded hard_error_def]
          split: sum.splits if_splits)
qed

lemma parse_question_loop_errors:
  "parse_question_loop L llm question prompt attempt = Inl e \<Longrightarrow> hard_error e"
proof (induction "LLM_MAX_RETRIES - attempt" arbitrary: attempt prompt)
  case 0
  then show ?case
    using rule_based_parse_Inr [of L question]
    by (subst (asm) parse_question_loop_step)
       (auto simp: hard_error_def split: sum.splits if_splits)
next
  case (Suc n)
  from Suc.hyps(2) have less: "attempt < LLM_MAX_RETRIES" and n: "n = LLM_MAX_RETRIES - Suc attempt"
    by simp_all
  from Suc.prems(1) show ?case
    by (subst (asm) parse_question_loop_step)
       (auto simp: hard_error_def less intro: Suc.hyps(1) [OF n, unfolded hard_error_def]
          split: sum.splits if_splits)
qed


lemma detect_confounders_safe_iff:
  "detect_confounders pd cur changes outs = Inr cr \<Longrightarrow>
   dr_decision_safe cr = (dr_confounders cr = [])"
  by (auto simp: detect_confounders_def Let_def split: sum.splits)

lemma recommend_step_unsafe:
  assumes "recommend_step L W request parsed ctx cr = Inr (recommendation, ws)"
    and "dr_confounders cr \<noteq> []"
    and "dr_decision_safe cr = (dr_confounders cr = [])"
  shows "py_get recommendation ''decision_safe'' d = Inr (JBool False)"
  using assms
  by (auto simp: recommend_step_def Let_def generate_recommendation_def py_get_def dict_get_def
      dest: generate_recommendation_loop_unsafe [where d = d]
      split: sum.splits pyexn.splits)

lemma AnalyzeResponse_fields:
  assumes "AnalyzeResponse L did q t os ds cl sa re ad confs mr sl ti ws ca = Inr r"
  shows "valid_bool (lax_bool L) ds = Some (rs_decision_safe r)
       \<and> valid_str cl = Some (rs_confidence_level r)
       \<and> valid_str sa = Some (rs_suggested_action r)
       \<and> valid_str re = Some (rs_reasoning r)
       \<and> rs_confounders_detected r = confs
       \<and> rs_warnings r = ws"
  using assms by (auto simp: AnalyzeResponse_def split: option.splits)

lemma build_response_fields:
  assumes "build_response L did request parsed recommendation ds confs ti ws ca = Inr r"
  shows "\<exists>brief. recommendation = JObj brief
       \<and> valid_bool (lax_bool L) (dict_get brief ''decision_safe'' (JBool ds)) = Some (rs_decision_safe r)
       \<and> valid_str (dict_get brief ''confidence_level'' (JStr ''LOW'')) = Some (rs_confidence_level r)
       \<and> valid_str (dict_get brief ''suggested_action'' (JStr ''WAIT'')) = Some (rs_suggested_action r)
       \<and> valid_str (dict_get brief ''reasoning'' (JStr '''')) = Some (rs_reasoning r)
       \<and> rs_confounders_detected r = confs
       \<and> rs_warnings r = (if ws \<noteq> [] then Some ws else None)"
proof -
  from assms obtain brief where b: "recommendation = JObj brief"
    by (cases recommendation) (auto simp: build_response_def py_get_def)
  show ?thesis
    using assms AnalyzeResponse_fields
    unfolding b build_response_def py_get_def
    by (simp split: sum.splits)
qed

lemma log_step_fields:
  "rs_decision_safe (log_step W r) = rs_decision_safe r"
  "rs_confounders_detected (log_step W r) = rs_confounders_detected r"
  by (simp_all add: log_step_def split: option.splits)

subsection \<open>C5: the rule-based parser\<close>

text \<open>
  Claim C5. For every question the rule-based parser returns a parsed question and
  raises nothing. Its outcomes are never empty: they are the metrics of the keywords
  found, and the single metric \<open>conversion_rate\<close> when no keyword is found. The decision
  type is \<open>root_cause\<close> when the question has why/cause language, otherwise
  \<open>impact_analysis\<close> when it has impact/effect language, and \<open>should_we\<close> otherwise.
\<close>

theorem rule_based_parse_total:
  "\<exists>p. rule_based_parse L question = Inr p
      \<and> pq_outcomes p \<noteq> []
      \<and> pq_outcomes p = (if matching_metrics question = [] then [''conversion_rate'']
                         else matching_metrics question)
      \<and> pq_decision_type p =
          (if why_language question then ''root_cause''
           else if impact_language question then ''impact_analysis''
           else ''should_we'')"
  by (simp add: rule_based_parse_def Let_def ParsedQuestion_texts extract_outcomes_filter
      matching_metrics_def why_language_def impact_language_def)

theorem rule_based_parse_total_witness:
  "\<exists>p. rule_based_parse test_libs ''Why is churn increasing?'' = Inr p
      \<and> pq_outcomes p = [''churn_rate''] \<and> pq_decision_type p = ''root_cause''"
proof -
  have m: "matching_metrics ''Why is churn increasing?'' = [''churn_rate'']"
    by code_simp
  have w: "why_language ''Why is churn increasing?''"
    by code_simp
  from rule_based_parse_total [of test_libs "''Why is churn increasing?''"]
  show ?thesis
    unfolding m using w by auto
qed

subsection \<open>C6: the rule-based recommendation\<close>

text \<open>
  Claim C6. For every list of confounders and every list of outcomes, the fallback
  brief says that the decision is safe exactly when there is no confounder, its
  confidence level is LOW, its action is WAIT with confounders and RUN\_EXPERIMENT
  without, it asks to monitor the first three outcomes, and its stop-loss triggers are
  the same two texts.
\<close>

theorem rule_based_recommendation_brief:
  "\<exists>brief. rule_based_recommendation confounders outcomes = JObj brief
      \<and> map_of brief ''decision_safe'' = Some (JBool (confounders = []))
      \<and> map_of brief ''confidence_level'' = Some (JStr ''LOW'')
      \<and> map_of brief ''suggested_action''
            = Some (JStr (if confounders \<noteq> [] then ''WAIT'' else ''RUN_EXPERIMENT''))
      \<and> map_of brief ''monitoring_required'' = Some (JArr (map JStr (take 3 outcomes)))
      \<and> map_of brief ''stop_loss_triggers''
            = Some (JArr [JStr ''Significant metric degradation'', JStr ''Unexpected side effects''])"
  by (simp add: rule_based_recommendation_def Let_def)

theorem rule_based_recommendation_brief_witness:
  "rule_based_recommendation [] [''a'', ''b'', ''c'', ''d'']
     = JObj [(''decision_safe'', JBool True),
             (''confidence_level'', JStr ''LOW''),
             (''reasoning'', JStr ''No recent confounders detected. (LLM fallback mode)''),
             (''suggested_action'', JStr ''RUN_EXPERIMENT''),
             (''action_details'', JStr ''Consider running a controlled experiment.''),
             (''monitoring_required'', JArr [JStr ''a'', JStr ''b'', JStr ''c'']),
             (''stop_loss_triggers'',
                JArr [JStr ''Significant metric degradation'', JStr ''Unexpected side effects''])]"
proof -
  from rule_based_recommendation_brief [of "[]" "[''a'', ''b'', ''c'', ''d'']"]
  obtain brief where "rule_based_recommendation [] [''a'', ''b'', ''c'', ''d''] = JObj brief"
    by blast
  then show ?thesis
    by (simp add: rule_based_recommendation_def)
qed

section \<open>Properties of the pipeline\<close>

subsection \<open>C1: confounders make the decision unsafe\<close>

text \<open>
  Claim C1. Whenever \<open>analyze\<close> returns a response whose list of detected confounders
  is not empty, the response says that the decision is not safe. This holds for every
  backend, whatever it answers or raises, on the primary path, on the rule-based
  fallback of the synthesizer and on the fallback of the analyzer.
\<close>

theorem analyze_unsafe_with_confounders:
  assumes "analyze L W request = Inr response"
    and "rs_confounders_detected response \<noteq> []"
  shows "\<not> rs_decision_safe response"
proof -
  from assms(1) obtain parsed cr recommendation warnings3 ctx ti ws built where
    det: "detect_confounders (dateutil_parse L) (w_current_date W)
            (get_recent_changes (w_changes_file W)) (pq_outcomes parsed) = Inr cr"
    and rec: "recommend_step L W request parsed ctx cr = Inr (recommendation, warnings3)"
    and bld: "build_response L (w_decision_id W) request parsed recommendation
               (dr_decision_safe cr) (dr_confounders cr) ti ws (w_created_at W) = Inr built"
    and res: "response = log_step W built"
    by (auto simp: analyze_def Let_def split: sum.splits prod.splits)
  from build_response_fields [OF bld] obtain brief where
    b: "recommendation = JObj brief"
    and ds: "valid_bool (lax_bool L) (dict_get brief ''decision_safe'' (JBool (dr_decision_safe cr)))
              = Some (rs_decision_safe built)"
    and cs: "rs_confounders_detected built = dr_confounders cr"
    by blast
  from assms(2) have ne: "dr_confounders cr \<noteq> []"
    by (simp add: res log_step_fields cs)
  have "py_get recommendation ''decision_safe'' (JBool (dr_decision_safe cr)) = Inr (JBool False)"
    using recommend_step_unsafe [OF rec ne detect_confounders_safe_iff [OF det]] .
  then have "dict_get brief ''decision_safe'' (JBool (dr_decision_safe cr)) = JBool False"
    by (simp add: b py_get_def)
  with ds have "rs_decision_safe built = False"
    by (simp add: valid_bool_def)
  then show ?thesis
    by (simp add: res log_step_fields)
qed

theorem analyze_unsafe_with_confounders_witness:
  "\<exists>response. analyze test_libs test_world test_request = Inr response
      \<and> rs_confounders_detected response = [test_confounder]
      \<and> \<not> rs_decision_safe response"
proof -
  have "case analyze test_libs test_world test_request of
          Inl e \<Rightarrow> False
        | Inr response \<Rightarrow> rs_confounders_detected response = [test_confounder]"
    by code_simp
  then obtain response where r: "analyze test_libs test_world test_request = Inr response"
    and c: "rs_confounders_detected response = [test_confounder]"
    by (auto split: sum.splits)
  from analyze_unsafe_with_confounders [OF r] c have "\<not> rs_decision_safe response"
    by simp
  with r c show ?thesis by blast
qed





















lemma analyze_InrE:
  assumes "analyze L W request = Inr response"
  obtains parsed warnings1 ctx warnings2 cr recommendation warnings3 built where
    "parse_step L W request = Inr (parsed, warnings1)"
    "retrieve_step L W request parsed warnings1 = (ctx, warnings2)"
    "detect_confounders (dateutil_parse L) (w_current_date W)
       (get_recent_changes (w_changes_file W)) (pq_outcomes parsed) = Inr cr"
    "recommend_step L W request parsed ctx cr = Inr (recommendation, warnings3)"
    "build_response L (w_decision_id W) request parsed recommendation
       (dr_decision_safe cr) (dr_confounders cr)
       (assess_team_impacts (pq_outcomes parsed) (dr_confounders cr))
       (warnings2 @ warnings3) (w_created_at W) = Inr built"
    "response = log_step W built"
  using assms
  by (auto simp: analyze_def Let_def split: sum.splits prod.splits)



lemma retrieve_context_failure:
  assumes "get_collection = Inl e
           \<or> (\<exists>c. get_collection = Inr c \<and> col_count c = Inl e)
           \<or> (\<exists>c n. get_collection = Inr c \<and> col_count c = Inr n \<and> n \<noteq> 0
                 \<and> col_query c (query @ '' '' @ treatment @ '' '' @ join '' '' outcomes) n_results = Inl e)"
  shows "retrieve_context loads update get_collection query treatment outcomes n_results
         = \<lparr>cx_relevant_experiments = '''', cx_relevant_changes = [], cx_kpi_info = [],
            cx_warnings = [''Document retrieval error: '' @ exn_text e]\<rparr>"
  using assms by (auto simp: retrieve_context_def retrieval_error_def Let_def)


subsection \<open>C8: retrieval and audit failures do not fail the request\<close>



subsection \<open>C10: defaults for the fields a brief omits\<close>

text \<open>
  Claim C10. In every run that returns a response, the brief that the synthesizer step
  gave is a dict, and for each field it omits the response holds a default:
  \<open>decision_safe\<close> is the detector's value, which says that no confounder was detected,
  so a brief without the field cannot mark an analysis with confounders as safe;
  \<open>confidence_level\<close> is LOW, \<open>suggested_action\<close> is WAIT and \<open>reasoning\<close> is the empty
  text.
\<close>

lemma valid_bool_JBool: "valid_bool coerce (JBool b) = Some b"
  by (simp add: valid_bool_def)

lemma build_response_defaults:
  assumes "build_response L did request parsed (JObj brief) ds confs ti ws ca = Inr response"
  shows "(map_of brief ''decision_safe'' = None \<longrightarrow> rs_decision_safe response = ds)
       \<and> (map_of brief ''confidence_level'' = None \<longrightarrow> rs_confidence_level response = ''LOW'')
       \<and> (map_of brief ''suggested_action'' = None \<longrightarrow> rs_suggested_action response = ''WAIT'')
       \<and> (map_of brief ''reasoning'' = None \<longrightarrow> rs_reasoning response = [])
       \<and> rs_confounders_detected response = confs"
proof -
  from build_response_fields [OF assms] have
    f: "valid_bool (lax_bool L) (dict_get brief ''decision_safe'' (JBool ds)) = Some (rs_decision_safe response)"
       "valid_str (dict_get brief ''confidence_level'' (JStr ''LOW'')) = Some (rs_confidence_level response)"
       "valid_str (dict_get brief ''suggested_action'' (JStr ''WAIT'')) = Some (rs_suggested_action response)"
       "valid_str (dict_get brief ''reasoning'' (JStr [])) = Some (rs_reasoning response)"
       "rs_confounders_detected response = confs"
    by simp_all
  have d: "\<And>k v. map_of brief k = None \<Longrightarrow> dict_get brief k v = v"
    by (simp add: dict_get_def)
  show ?thesis
    using f by (auto simp: d valid_bool_def valid_str_def)
qed

lemma log_step_brief_fields:
  "rs_confidence_level (log_step W r) = rs_confidence_level r"
  "rs_suggested_action (log_step W r) = rs_suggested_action r"
  "rs_reasoning (log_step W r) = rs_reasoning r"
  by (simp_all add: log_step_def split: option.splits)

lemma build_response_dict:
  "build_response L did request parsed recommendation ds confs ti ws ca = Inr response \<Longrightarrow>
   \<exists>brief. recommendation = JObj brief"
  by (cases recommendation) (auto simp: build_response_def py_get_def)

theorem analyze_brief_defaults:
  assumes "analyze L W request = Inr response"
  shows "\<exists>(parsed :: parsed_question) ctx (cr :: detect_result) brief warnings3.
           recommend_step L W request parsed ctx cr = Inr (JObj brief, warnings3)
         \<and> dr_decision_safe cr = (dr_confounders cr = [])
         \<and> rs_confounders_detected response = dr_confounders cr
         \<and> (map_of brief ''decision_safe'' = None \<longrightarrow>
               rs_decision_safe response = dr_decision_safe cr
               \<and> rs_decision_safe response = (rs_confounders_detected response = []))
         \<and> (map_of brief ''confidence_level'' = None \<longrightarrow> rs_confidence_level response = ''LOW'')
         \<and> (map_of brief ''suggested_action'' = None \<longrightarrow> rs_suggested_action response = ''WAIT'')
         \<and> (map_of brief ''reasoning'' = None \<longrightarrow> rs_reasoning response = '''')"
proof -
  from assms obtain parsed warnings1 ctx warnings2 cr recommendation warnings3 built
    where ps: "parse_step L W request = Inr (parsed, warnings1)"
    and rt: "retrieve_step L W request parsed warnings1 = (ctx, warnings2)"
    and det: "detect_confounders (dateutil_parse L) (w_current_date W)
       (get_recent_changes (w_changes_file W)) (pq_outcomes parsed) = Inr cr"
    and rec: "recommend_step L W request parsed ctx cr = Inr (recommendation, warnings3)"
    and bld: "build_response L (w_decision_id W) request parsed recommendation
              (dr_decision_safe cr) (dr_confounders cr)
              (assess_team_impacts (pq_outcomes parsed) (dr_confounders cr))
              (warnings2 @ warnings3) (w_created_at W) = Inr built"
    and res: "response = log_step W built"
    by (rule analyze_InrE)
  from build_response_dict [OF bld] obtain brief where b: "recommendation = JObj brief"
    by blast
  note d = build_response_defaults [OF bld [unfolded b]]
  note s = detect_confounders_safe_iff [OF det]
  have "recommend_step L W request parsed ctx cr = Inr (JObj brief, warnings3)
         \<and> dr_decision_safe cr = (dr_confounders cr = [])
         \<and> rs_confounders_detected response = dr_confounders cr
         \<and> (map_of brief ''decision_safe'' = None \<longrightarrow>
               rs_decision_safe response = dr_decision_safe cr
               \<and> rs_decision_safe response = (rs_confounders_detected response = []))
         \<and> (map_of brief ''confidence_level'' = None \<longrightarrow> rs_confidence_level response = ''LOW'')
         \<and> (map_of brief ''suggested_action'' = None \<longrightarrow> rs_suggested_action response = ''WAIT'')
         \<and> (map_of brief ''reasoning'' = None \<longrightarrow> rs_reasoning response = '''')"
    using rec d s by (simp add: b res log_step_fields log_step_brief_fields)
  then show ?thesis by - (rule exI)+
qed

theorem analyze_brief_defaults_witness:
  "\<exists>response. analyze test_libs quiet_world test_request = Inr response
      \<and> rs_decision_safe response \<and> rs_confounders_detected response = []
      \<and> rs_confidence_level response = ''LOW'' \<and> rs_suggested_action response = ''WAIT''
      \<and> rs_reasoning response = ''''"
proof -
  have "case analyze test_libs quiet_world test_request of
          Inl e \<Rightarrow> False
        | Inr response \<Rightarrow>
            rs_decision_safe response \<and> rs_confounders_detected response = []
            \<and> rs_confidence_level response = ''LOW'' \<and> rs_suggested_action response = ''WAIT''
            \<and> rs_reasoning response = ''''"
    by code_simp
  then obtain response where r: "analyze test_libs quiet_world test_request = Inr response"
    and f: "rs_decision_safe response \<and> rs_confounders_detected response = []
            \<and> rs_confidence_level response = ''LOW'' \<and> rs_suggested_action response = ''WAIT''
            \<and> rs_reasoning response = ''''"
    by (auto split: sum.splits)
  from analyze_brief_defaults [OF r] f r show ?thesis by blast
qed

section \<open>Where the code departs from the specification\<close>

subsection \<open>C3: a malformed answer that reads not found\<close>

text \<open>
  Claim C3 says that only an unreachable backend and a missing model reach the caller,
  and that an answer that cannot be parsed is retried and then answered by the
  rule-based fallback. The handler recognises a missing model by the words
  \<open>not found\<close> in the text of the exception, and the exception of an answer that cannot
  be parsed quotes the answer. So when the backend answers with a text that holds no
  JSON and reads \<open>not found\<close>, both \<open>parse_question\<close> and \<open>generate_recommendation\<close>
  raise \<open>ModelNotFoundError\<close> at the first attempt, with no retry and no fallback.
\<close>

lemma not_found_reply_facts:
  "strip not_found_reply = not_found_reply"
  "contains not_found_reply ''```json'' = False"
  "find not_found_reply ''{'' 0 = - 1"
  "contains (lower (''Could not parse JSON from response: '' @ take 200 not_found_reply)) ''not found''"
  by code_simp+

lemma parse_json_response_not_found:
  assumes "loads not_found_reply = None"
  shows "parse_json_response loads not_found_reply
         = Inl (ValueError (''Could not parse JSON from response: '' @ take 200 not_found_reply))"
  using assms by (simp add: parse_json_response_def Let_def not_found_reply_facts del: append.simps)

theorem not_found_text_raises_model_error:
  assumes "json_loads L not_found_reply = None"
    and "llm (parse_prompt question) = Content not_found_reply"
    and "llm (recommendation_prompt L question treatment outcomes confounders relevant_experiments)
           = Content not_found_reply"
  shows "parse_question L llm question
           = Inl (ModelNotFoundError (''Model missing. Run: ollama pull '' @ OLLAMA_MODEL))
       \<and> generate_recommendation L llm question treatment outcomes confounders relevant_experiments
           = Inl (ModelNotFoundError (''Model missing. Run: ollama pull '' @ OLLAMA_MODEL))"
proof -
  define e where "e = ValueError (''Could not parse JSON from response: '' @ take 200 not_found_reply)"
  have pj: "parse_json_response (json_loads L) not_found_reply = Inl e"
    unfolding e_def by (rule parse_json_response_not_found [of "json_loads L", OF assms(1)])
  have e1: "\<not> is_connect_error e"
    by (simp add: e_def is_connect_error_def)
  have e2: "contains (lower (exn_text e)) ''not found''"
    unfolding e_def exn_text.simps by (rule not_found_reply_facts(4))
  note e = e1 e2
  have a: "parse_attempt L llm (parse_prompt question) = Inl e"
    by (simp add: parse_attempt_def assms(2) pj)
  have b: "recommend_attempt L llm confounders
             (recommendation_prompt L question treatment outcomes confounders relevant_experiments)
             = Inl e"
    by (simp add: recommend_attempt_def assms(3) pj)
  have p: "parse_question L llm question
           = Inl (ModelNotFoundError (''Model missing. Run: ollama pull '' @ OLLAMA_MODEL))"
    unfolding parse_question_def
    by (subst parse_question_loop_step) (simp add: a e)
  have g: "generate_recommendation L llm question treatment outcomes confounders relevant_experiments
           = Inl (ModelNotFoundError (''Model missing. Run: ollama pull '' @ OLLAMA_MODEL))"
    unfolding generate_recommendation_def
    by (subst generate_recommendation_loop_step) (simp add: b e)
  from p g show ?thesis by simp
qed

theorem not_found_text_raises_model_error_witness:
  "json_loads test_libs not_found_reply = None
   \<and> parse_question test_libs (\<lambda>prompt. Content not_found_reply) (rq_question test_request)
       = Inl (ModelNotFoundError ''Model missing. Run: ollama pull qwen2.5:7b'')"
proof -
  have h: "json_loads test_libs not_found_reply = None"
    by code_simp
  from not_found_text_raises_model_error [of test_libs "\<lambda>prompt. Content not_found_reply"
      "rq_question test_request" "[]" "[]" "[]" "[]", OF h]
  show ?thesis
    using h by (simp add: OLLAMA_MODEL_def)
qed

subsection \<open>C9: a parsed question without outcomes\<close>

text \<open>
  Claim C9 says that every parsed question has at least one outcome. On the primary
  path the outcomes default to the empty list: when the backend answers with a JSON
  object that has a treatment and no \<open>outcomes\<close> field, \<open>parse_question\<close> returns a
  parsed question whose outcomes are empty.
\<close>

lemma parse_json_response_direct:
  "loads (strip reply) = Some v \<Longrightarrow> parse_json_response loads reply = Inr v"
  by (simp add: parse_json_response_def Let_def)

theorem parse_question_without_outcomes:
  assumes "llm (parse_prompt question) = Content reply"
    and "json_loads L (strip reply) = Some (JObj [(''treatment'', JStr t)])"
  shows "parse_question L llm question
         = Inr \<lparr>pq_treatment = t, pq_outcomes = [], pq_decision_type = ''should_we''\<rparr>"
  unfolding parse_question_def
  by (subst parse_question_loop_step)
     (simp add: parse_attempt_def assms parse_json_response_direct [of "json_loads L", OF assms(2)]
        py_get_def dict_get_def ParsedQuestion_def)

theorem parse_question_without_outcomes_witness:
  "parse_question test_libs (\<lambda>prompt. Content no_outcomes_reply) (rq_question test_request)
     = Inr \<lparr>pq_treatment = ''reduce trial'', pq_outcomes = [], pq_decision_type = ''should_we''\<rparr>"
proof -
  have h: "json_loads test_libs (strip no_outcomes_reply) = Some (JObj [(''treatment'', JStr ''reduce trial'')])"
    by code_simp
  show ?thesis
    by (rule parse_question_without_outcomes [OF _ h]) simp
qed

end
